theory Spec2Isabelle
  imports Complex_Main "HOL-Library.Word"
begin

section \<open>The constraint solver of gnark: value store, term evaluator, hints, R1C, levels\<close>

text \<open>
  Two generations of the solver are embedded side by side:
  \<^item> \<^verbatim>\<open>constraint/bls12-381/solver.go\<close> (type \<^verbatim>\<open>solver\<close>), and
  \<^item> \<^verbatim>\<open>constraint/bn254/solution.go\<close> (type \<^verbatim>\<open>solution\<close>).

  Field elements (\<^verbatim>\<open>fr.Element\<close>) are values of an arbitrary type of class \<open>field\<close>:
  the arithmetic library is external, and every result below holds for every field.
  \<^verbatim>\<open>Add\<close>, \<open>Sub\<close>, \<open>Mul\<close>, \<open>Neg\<close> are \<open>+\<close>, \<open>-\<close>, \<open>*\<close>, unary \<open>-\<close>; \<^verbatim>\<open>Double\<close> is \<open>x + x\<close>;
  \<^verbatim>\<open>Div\<close> is \<open>/\<close> (the library's inverse of zero is zero, as in HOL); \<^verbatim>\<open>IsZero\<close> and
  \<^verbatim>\<open>Equal\<close> are equality.

  A Go panic is the value \<open>Panic msg\<close>; a run-time index error of Go is
  \<open>Panic ''index out of range''\<close>.
\<close>

subsection \<open>Results, errors\<close>

datatype 'r outcome = Return 'r | Panic string

text \<open>
  Go's \<^verbatim>\<open>error\<close> values met in the two files: \<^verbatim>\<open>errors.New\<close> and \<^verbatim>\<open>fmt.Errorf\<close> give an
  \<open>ErrorString\<close>; \<^verbatim>\<open>UnsatisfiedConstraintError\<close> has the fields \<^verbatim>\<open>Err\<close>, \<^verbatim>\<open>CID\<close>, \<^verbatim>\<open>DebugInfo\<close>
  (a nil pointer is \<open>None\<close>).
\<close>

datatype error =
    ErrorString string
  | UnsatisfiedConstraintError (Err: error) (CID_of: int) (DebugInfo_of: "string option")

text \<open>\<^verbatim>\<open>strconv.Itoa\<close> and the verb \<^verbatim>\<open>%d\<close>: decimal digits, a minus sign in front if negative.\<close>

fun digits :: "nat \<Rightarrow> string" where
  "digits n = (if n < 10 then [''0123456789'' ! n] else digits (n div 10) @ [''0123456789'' ! (n mod 10)])"

declare digits.simps [simp del]

definition Itoa :: "int \<Rightarrow> string" where
  "Itoa i = (if i < 0 then CHR ''-'' # digits (nat (- i)) else digits (nat i))"

text \<open>The method \<^verbatim>\<open>Error()\<close>.\<close>

fun Error :: "error \<Rightarrow> string" where
  "Error (ErrorString m) = m"
| "Error (UnsatisfiedConstraintError e cid dbg) =
     (case dbg of
        Some d \<Rightarrow> ''constraint #'' @ Itoa cid @ '' is not satisfied: '' @ d
      | None \<Rightarrow> ''constraint #'' @ Itoa cid @ '' is not satisfied: '' @ Error e)"

subsection \<open>Terms and coefficient ids\<close>

text \<open>
  Modelled from the spec: the type \<^verbatim>\<open>constraint.Term\<close> and its methods \<^verbatim>\<open>CoeffID\<close>, \<^verbatim>\<open>WireID\<close>,
  \<^verbatim>\<open>IsConstant\<close> are not among the sources. The spec: a term is a (coefficient id, wire id)
  pair with a distinguished constant tag. The fields \<^verbatim>\<open>CID\<close>, \<^verbatim>\<open>VID\<close> are \<^verbatim>\<open>uint32\<close> in the
  source and are converted to \<^verbatim>\<open>int\<close> before every use; no arithmetic is done on them.
\<close>

record Term =
  CID :: nat
  VID :: nat
  IsConstant :: bool

type_synonym LinearExpression = "Term list"

text \<open>
  Modelled from the spec: the constants \<^verbatim>\<open>constraint.CoeffIdZero\<close> ... are not among the
  sources. The spec: ids 0, 1, 2, 3 are reserved for the values 0, 1, 2 and -1.
\<close>

definition CoeffIdZero :: nat where "CoeffIdZero = 0"
definition CoeffIdOne :: nat where "CoeffIdOne = 1"
definition CoeffIdTwo :: nat where "CoeffIdTwo = 2"
definition CoeffIdMinusOne :: nat where "CoeffIdMinusOne = 3"

subsection \<open>The value store\<close>

text \<open>
  A hint function \<^verbatim>\<open>f(q, inputs, outputs) error\<close> receives the modulus, the inputs and the
  output buffer (one big integer per output, all zero) and writes the outputs in place.
  Here it returns the new contents of the buffer and the error; the caller keeps the
  buffer's length (\<open>written\<close>): the callee cannot change the length of the caller's slice.
\<close>

type_synonym HintFunction = "int \<Rightarrow> int list \<Rightarrow> int list \<Rightarrow> int list \<times> error option"

definition written :: "nat \<Rightarrow> int list \<Rightarrow> int list" where
  "written n outs = map (\<lambda>i. if i < length outs then outs ! i else 0) [0..<n]"

text \<open>
  The fields that \<^verbatim>\<open>solver\<close> and \<^verbatim>\<open>solution\<close> share. \<open>Coefficients\<close> is \<^verbatim>\<open>system.Coefficients\<close>
  in the first and \<^verbatim>\<open>solution.coefficients\<close> in the second. \<open>toBigInt\<close> and \<open>setBigInt\<close> are
  the library's \<^verbatim>\<open>Element.BigInt\<close> and \<^verbatim>\<open>Element.SetBigInt\<close>, \<open>elemString\<close> is
  \<^verbatim>\<open>Element.String\<close>, \<open>Sprintf\<close> is \<^verbatim>\<open>fmt.Sprintf\<close>: external, so parameters. \<open>modulus\<close> is
  \<^verbatim>\<open>solver.q\<close> in the first file and \<^verbatim>\<open>fr.Modulus()\<close> in the second.
\<close>

record 'a store =
  "values" :: "'a list"
  solved :: "bool list"
  nbSolved :: "64 word"
  Coefficients :: "'a list"
  mHintsFunctions :: "nat \<rightharpoonup> HintFunction"
  modulus :: int
  toBigInt :: "'a \<Rightarrow> int"
  setBigInt :: "int \<Rightarrow> 'a"
  elemString :: "'a \<Rightarrow> string"
  Sprintf :: "string \<Rightarrow> string list \<Rightarrow> string"

text \<open>
  \<^verbatim>\<open>solver.set\<close> and \<^verbatim>\<open>solution.set\<close> (the same text in both files). The wire id is a Go
  \<^verbatim>\<open>int\<close>; \<^verbatim>\<open>atomic.AddUint64\<close> adds one modulo \<open>2^64\<close>.
\<close>

definition solver_set :: "('a, 'z) store_scheme \<Rightarrow> int \<Rightarrow> 'a \<Rightarrow> ('a, 'z) store_scheme outcome" where
  "solver_set s i v =
     (if \<not> (0 \<le> i \<and> i < int (length (solved s))) then Panic ''index out of range''
      else if solved s ! nat i then Panic ''solving the same wire twice should never happen.''
      else if \<not> i < int (length (values s)) then Panic ''index out of range''
      else Return (s\<lparr>values := (values s)[nat i := v],
                     solved := (solved s)[nat i := True],
                     nbSolved := nbSolved s + 1\<rparr>))"

subsection \<open>The term evaluator\<close>

text \<open>\<^verbatim>\<open>solver.computeTerm\<close> (bls12-381).\<close>

definition solver_computeTerm :: "('a::field, 'z) store_scheme \<Rightarrow> Term \<Rightarrow> 'a outcome" where
  "solver_computeTerm s t =
     (let cID = CID t; vID = VID t in
      if IsConstant t then
        (if cID < length (Coefficients s) then Return (Coefficients s ! cID)
         else Panic ''index out of range'')
      else if cID \<noteq> 0 \<and> \<not> vID < length (solved s) then Panic ''index out of range''
      else if cID \<noteq> 0 \<and> \<not> solved s ! vID then Panic ''computing a term with an unsolved wire''
      else if cID = CoeffIdZero then Return 0
      else if \<not> vID < length (values s) then Panic ''index out of range''
      else if cID = CoeffIdOne then Return (values s ! vID)
      else if cID = CoeffIdTwo then Return (values s ! vID + values s ! vID)
      else if cID = CoeffIdMinusOne then Return (- (values s ! vID))
      else if \<not> cID < length (Coefficients s) then Panic ''index out of range''
      else Return (Coefficients s ! cID * values s ! vID))"

text \<open>\<^verbatim>\<open>solution.computeTerm\<close> (bn254): no case for a constant term.\<close>

definition solution_computeTerm :: "('a::field, 'z) store_scheme \<Rightarrow> Term \<Rightarrow> 'a outcome" where
  "solution_computeTerm s t =
     (let cID = CID t; vID = VID t in
      if cID \<noteq> 0 \<and> \<not> vID < length (solved s) then Panic ''index out of range''
      else if cID \<noteq> 0 \<and> \<not> solved s ! vID then Panic ''computing a term with an unsolved wire''
      else if cID = CoeffIdZero then Return 0
      else if \<not> vID < length (values s) then Panic ''index out of range''
      else if cID = CoeffIdOne then Return (values s ! vID)
      else if cID = CoeffIdTwo then Return (values s ! vID + values s ! vID)
      else if cID = CoeffIdMinusOne then Return (- (values s ! vID))
      else if \<not> cID < length (Coefficients s) then Panic ''index out of range''
      else Return (Coefficients s ! cID * values s ! vID))"

text \<open>
  \<^verbatim>\<open>solver.accumulateInto\<close> and \<^verbatim>\<open>solution.accumulateInto\<close> (the same dispatch in both
  files): the accumulator \<^verbatim>\<open>r\<close> is passed in and its new value returned.
\<close>

definition accumulateInto :: "('a::field, 'z) store_scheme \<Rightarrow> Term \<Rightarrow> 'a \<Rightarrow> 'a outcome" where
  "accumulateInto s t r =
     (let cID = CID t; vID = VID t in
      if IsConstant t then
        (if cID < length (Coefficients s) then Return (r + Coefficients s ! cID)
         else Panic ''index out of range'')
      else if cID = CoeffIdZero then Return r
      else if \<not> vID < length (values s) then Panic ''index out of range''
      else if cID = CoeffIdOne then Return (r + values s ! vID)
      else if cID = CoeffIdTwo then Return (r + (values s ! vID + values s ! vID))
      else if cID = CoeffIdMinusOne then Return (r - values s ! vID)
      else if \<not> cID < length (Coefficients s) then Panic ''index out of range''
      else Return (r + Coefficients s ! cID * values s ! vID))"

subsection \<open>Setting a list of wires\<close>

text \<open>The loop \<^verbatim>\<open>for i := range outputs { ...; s.set(wire i, v) }\<close> of both hint resolvers.\<close>

fun setAll :: "('a, 'z) store_scheme \<Rightarrow> (int \<times> 'a) list \<Rightarrow> ('a, 'z) store_scheme outcome" where
  "setAll s [] = Return s"
| "setAll s (wv # wvs) =
     (case solver_set s (fst wv) (snd wv) of
        Panic m \<Rightarrow> Panic m
      | Return s' \<Rightarrow> setAll s' wvs)"

subsection \<open>The hint resolver of bn254: recursive\<close>

text \<open>
  Modelled from the spec: the type \<^verbatim>\<open>constraint.Hint\<close> is not among the sources. The spec: a
  binding of an external function identifier to output wires and a list of input linear
  expressions. The fields are those the source reads: \<^verbatim>\<open>ID\<close>, \<^verbatim>\<open>Inputs\<close> and \<^verbatim>\<open>Wires\<close> (a slice
  of \<^verbatim>\<open>int\<close>). \<^verbatim>\<open>solution.mHints\<close> maps a wire id to the hint that computes it.
\<close>

record Hint =
  ID :: nat
  Inputs :: "LinearExpression list"
  Wires :: "int list"

record 'a solution = "'a store" +
  mHints :: "int \<rightharpoonup> Hint"

text \<open>
  \<^verbatim>\<open>solveWithHint\<close> calls itself through the closure \<^verbatim>\<open>recursiveSolve\<close>, and nothing in the
  code bounds the depth (a cyclic \<^verbatim>\<open>mHints\<close> recurses for ever). The model takes fuel: each
  call of \<^verbatim>\<open>solveWithHint\<close> uses one unit, and \<open>None\<close> says that the fuel ran out. The
  closure and the two loops take the recursive call as the parameter \<open>rec\<close>.
\<close>

type_synonym 'a hintResult = "(error option \<times> 'a solution) outcome option"

definition recursiveSolve ::
  "('a solution \<Rightarrow> int \<Rightarrow> Hint \<Rightarrow> 'a hintResult) \<Rightarrow> 'a solution \<Rightarrow> Term \<Rightarrow> 'a hintResult" where
  "recursiveSolve rec s t =
     (if IsConstant t then Some (Return (None, s))
      else let wID = VID t in
        if \<not> wID < length (solved s) then Some (Panic ''index out of range'')
        else if solved s ! wID then Some (Return (None, s))
        else (case mHints s (int wID) of
                Some h \<Rightarrow> rec s (int wID) h
              | None \<Rightarrow> Some (Panic ''solver can't compute hint; one or more input wires are unsolved'')))"

text \<open>The inner loop \<^verbatim>\<open>for _, term := range h.Inputs[i]\<close>, with the accumulator \<^verbatim>\<open>v\<close>.\<close>

fun hintInputTerms ::
  "('a::field solution \<Rightarrow> int \<Rightarrow> Hint \<Rightarrow> 'a hintResult) \<Rightarrow> 'a solution \<Rightarrow> Term list \<Rightarrow> 'a
     \<Rightarrow> (error option \<times> 'a solution \<times> 'a) outcome option" where
  "hintInputTerms rec s [] v = Some (Return (None, s, v))"
| "hintInputTerms rec s (t # ts) v =
     (case recursiveSolve rec s t of
        None \<Rightarrow> None
      | Some (Panic m) \<Rightarrow> Some (Panic m)
      | Some (Return (Some e, s')) \<Rightarrow> Some (Return (Some e, s', v))
      | Some (Return (None, s')) \<Rightarrow>
          (case accumulateInto s' t v of
             Panic m \<Rightarrow> Some (Panic m)
           | Return v' \<Rightarrow> hintInputTerms rec s' ts v'))"

text \<open>The outer loop \<^verbatim>\<open>for i := 0; i < nbInputs; i++\<close>: the inputs so far are \<open>ins\<close>.\<close>

fun hintInputs ::
  "('a::field solution \<Rightarrow> int \<Rightarrow> Hint \<Rightarrow> 'a hintResult) \<Rightarrow> 'a solution \<Rightarrow> LinearExpression list
     \<Rightarrow> int list \<Rightarrow> (error option \<times> 'a solution \<times> int list) outcome option" where
  "hintInputs rec s [] ins = Some (Return (None, s, ins))"
| "hintInputs rec s (l # ls) ins =
     (case hintInputTerms rec s l 0 of
        None \<Rightarrow> None
      | Some (Panic m) \<Rightarrow> Some (Panic m)
      | Some (Return (Some e, s', v)) \<Rightarrow> Some (Return (Some e, s', ins))
      | Some (Return (None, s', v)) \<Rightarrow> hintInputs rec s' ls (ins @ [toBigInt s' v]))"

text \<open>What follows the input loops: call the function, set every output, return its error.\<close>

definition solution_callHint :: "'a solution \<Rightarrow> Hint \<Rightarrow> HintFunction \<Rightarrow> int list
     \<Rightarrow> (error option \<times> 'a solution) outcome" where
  "solution_callHint s h f ins =
     (let nbOutputs = length (Wires h);
          r = f (modulus s) ins (replicate nbOutputs 0);
          outputs = written nbOutputs (fst r)
      in case setAll s (zip (Wires h) (map (setBigInt s) outputs)) of
           Panic m \<Rightarrow> Panic m
         | Return s' \<Rightarrow> Return (snd r, s'))"

primrec solution_solveWithHint :: "nat \<Rightarrow> 'a::field solution \<Rightarrow> int \<Rightarrow> Hint \<Rightarrow> 'a hintResult" where
  "solution_solveWithHint 0 = (\<lambda>s vID h. None)"
| "solution_solveWithHint (Suc n) = (\<lambda>s vID h.
     if \<not> (0 \<le> vID \<and> vID < int (length (solved s))) then Some (Panic ''index out of range'')
     else if solved s ! nat vID then Some (Return (None, s))
     else (case mHintsFunctions s (ID h) of
             None \<Rightarrow> Some (Return (Some (ErrorString ''missing hint function''), s))
           | Some f \<Rightarrow>
              (case hintInputs (solution_solveWithHint n) s (Inputs h) [] of
                 None \<Rightarrow> None
               | Some (Panic m) \<Rightarrow> Some (Panic m)
               | Some (Return (Some e, s', ins)) \<Rightarrow> Some (Return (Some e, s'))
               | Some (Return (None, s', ins)) \<Rightarrow> Some (solution_callHint s' h f ins))))"

subsection \<open>The hint resolver of bls12-381: not recursive\<close>

text \<open>
  Modelled from the spec: the type \<^verbatim>\<open>constraint.HintMapping\<close> is not among the sources. The
  spec: a function identifier, a contiguous range of output wires and a list of input
  linear expressions. The source subtracts \<^verbatim>\<open>OutputRange.Start\<close> from \<^verbatim>\<open>OutputRange.End\<close> and
  converts the difference to \<^verbatim>\<open>int\<close> afterwards: unsigned 32-bit fields, here \<open>32 word\<close>.
\<close>

record HintMapping =
  HintID :: nat
  HM_Inputs :: "LinearExpression list"
  OutputRange_Start :: "32 word"
  OutputRange_End :: "32 word"

text \<open>The inner loop of \<^verbatim>\<open>solver.solveWithHint\<close>: constants are added here, the rest by \<open>accumulateInto\<close>.\<close>

fun solver_hintInputTerms :: "('a::field, 'z) store_scheme \<Rightarrow> Term list \<Rightarrow> 'a \<Rightarrow> 'a outcome" where
  "solver_hintInputTerms s [] v = Return v"
| "solver_hintInputTerms s (t # ts) v =
     (if IsConstant t then
        (if CID t < length (Coefficients s)
         then solver_hintInputTerms s ts (v + Coefficients s ! CID t)
         else Panic ''index out of range'')
      else (case accumulateInto s t v of
              Panic m \<Rightarrow> Panic m
            | Return v' \<Rightarrow> solver_hintInputTerms s ts v'))"

fun solver_hintInputs :: "('a::field, 'z) store_scheme \<Rightarrow> LinearExpression list \<Rightarrow> int list
     \<Rightarrow> int list outcome" where
  "solver_hintInputs s [] ins = Return ins"
| "solver_hintInputs s (l # ls) ins =
     (case solver_hintInputTerms s l 0 of
        Panic m \<Rightarrow> Panic m
      | Return v \<Rightarrow> solver_hintInputs s ls (ins @ [toBigInt s v]))"

definition solver_solveWithHint :: "('a::field, 'z) store_scheme \<Rightarrow> HintMapping
     \<Rightarrow> (error option \<times> ('a, 'z) store_scheme) outcome" where
  "solver_solveWithHint s h =
     (case mHintsFunctions s (HintID h) of
        None \<Rightarrow> Return (Some (ErrorString ''missing hint function''), s)
      | Some f \<Rightarrow>
         (let nbOutputs = unat (OutputRange_End h - OutputRange_Start h) in
          case solver_hintInputs s (HM_Inputs h) [] of
            Panic m \<Rightarrow> Panic m
          | Return ins \<Rightarrow>
             (let r = f (modulus s) ins (replicate nbOutputs 0);
                  outputs = written nbOutputs (fst r)
              in case setAll s (zip (map (\<lambda>i. int (unat (OutputRange_Start h)) + int i) [0..<nbOutputs])
                                    (map (setBigInt s) outputs)) of
                   Panic m \<Rightarrow> Panic m
                 | Return s' \<Rightarrow> Return (snd r, s'))))"

subsection \<open>The solver state of bls12-381\<close>

text \<open>
  Modelled from the spec: the types \<^verbatim>\<open>constraint.LogEntry\<close>, the symbol table and \<^verbatim>\<open>system\<close>
  are not among the sources. The spec: a log or debug entry is a template over linear
  expressions bound to a source location; debug annotations are registered per
  constraint. The fields are those the source reads. \<open>a_vec\<close>, \<open>b_vec\<close>, \<open>c_vec\<close> are the
  fields \<^verbatim>\<open>a\<close>, \<^verbatim>\<open>b\<close>, \<^verbatim>\<open>c\<close> of \<^verbatim>\<open>solver\<close>; \<open>MDebug\<close>, \<open>DebugInfo\<close> and the symbol table belong to
  the embedded \<^verbatim>\<open>system\<close>.
\<close>

record LogEntry =
  Caller :: string
  Format :: string
  ToResolve :: "LinearExpression list"
  Stack :: "nat list"

record Location =
  FunctionID :: nat
  Line :: nat

record Function =
  Name :: string
  Filename :: string

record 'a solver = "'a store" +
  MDebug :: "int \<rightharpoonup> nat"
  DebugInfo :: "LogEntry list"
  SymbolTable_Locations :: "Location list"
  SymbolTable_Functions :: "Function list"
  a_vec :: "'a list"
  b_vec :: "'a list"
  c_vec :: "'a list"

subsection \<open>Diagnostics of bls12-381\<close>

definition unsolvedVariable :: string where
  "unsolvedVariable = ''<unsolved>''"

text \<open>
  The inner loop of \<^verbatim>\<open>logValue\<close> over one linear expression: \<open>None\<close> is
  \<^verbatim>\<open>missingValue = true\<close> (the loop breaks), \<open>Some eval\<close> the accumulated value.
\<close>

fun logEval :: "('a::field, 'z) store_scheme \<Rightarrow> Term list \<Rightarrow> 'a \<Rightarrow> 'a option outcome" where
  "logEval s [] eval = Return (Some eval)"
| "logEval s (t # ts) eval =
     (if IsConstant t then
        (if CID t < length (Coefficients s) then logEval s ts (eval + Coefficients s ! CID t)
         else Panic ''index out of range'')
      else if \<not> VID t < length (solved s) then Panic ''index out of range''
      else if \<not> solved s ! VID t then Return None
      else (case solver_computeTerm s t of
              Panic m \<Rightarrow> Panic m
            | Return tv \<Rightarrow> logEval s ts (eval + tv)))"

text \<open>The outer loop: one string per linear expression.\<close>

fun logResolve :: "('a::field, 'z) store_scheme \<Rightarrow> LinearExpression list \<Rightarrow> string list
     \<Rightarrow> string list outcome" where
  "logResolve s [] toResolve = Return toResolve"
| "logResolve s (l # ls) toResolve =
     (case logEval s l 0 of
        Panic m \<Rightarrow> Panic m
      | Return None \<Rightarrow> logResolve s ls (toResolve @ [unsolvedVariable])
      | Return (Some eval) \<Rightarrow> logResolve s ls (toResolve @ [elemString s eval]))"

text \<open>The loop over \<^verbatim>\<open>log.Stack\<close>, writing into the string builder \<open>sbb\<close>.\<close>

fun logStack :: "'a solver \<Rightarrow> nat list \<Rightarrow> string \<Rightarrow> string outcome" where
  "logStack s [] sbb = Return sbb"
| "logStack s (lID # lIDs) sbb =
     (if \<not> lID < length (SymbolTable_Locations s) then Panic ''index out of range''
      else let location = SymbolTable_Locations s ! lID in
        if \<not> FunctionID location < length (SymbolTable_Functions s) then Panic ''index out of range''
        else let function = SymbolTable_Functions s ! FunctionID location in
          logStack s lIDs
            (sbb @ Name function @ [CHR 0x0A, CHR 0x09] @ Filename function @ '':''
                 @ Itoa (int (Line location)) @ [CHR 0x0A]))"

definition solver_logValue :: "'a::field solver \<Rightarrow> LogEntry \<Rightarrow> string outcome" where
  "solver_logValue s entry =
     (case logResolve s (ToResolve entry) [] of
        Panic m \<Rightarrow> Panic m
      | Return toResolve \<Rightarrow>
         (if length (Stack entry) > 0 then
            (case logStack s (Stack entry) [] of
               Panic m \<Rightarrow> Panic m
             | Return sbb \<Rightarrow> Return (Sprintf s (Format entry) (toResolve @ [sbb])))
          else Return (Sprintf s (Format entry) toResolve)))"

text \<open>\<^verbatim>\<open>wrapErrWithDebugInfo\<close>.\<close>

definition wrapErrWithDebugInfo :: "'a::field solver \<Rightarrow> nat \<Rightarrow> error \<Rightarrow> error outcome" where
  "wrapErrWithDebugInfo s cID err =
     (case MDebug s (int cID) of
        None \<Rightarrow> Return (UnsatisfiedConstraintError err (int cID) None)
      | Some dID \<Rightarrow>
         (if \<not> dID < length (DebugInfo s) then Panic ''index out of range''
          else (case solver_logValue s (DebugInfo s ! dID) of
                  Panic m \<Rightarrow> Panic m
                | Return debugInfo \<Rightarrow>
                    Return (UnsatisfiedConstraintError err (int cID) (Some debugInfo)))))"

subsection \<open>The R1C solver of bls12-381\<close>

text \<open>
  Modelled from the spec: the type \<^verbatim>\<open>constraint.R1C\<close> is not among the sources. The spec:
  three linear expressions \<open>L\<close>, \<open>R\<close>, \<open>O\<close>.
\<close>

record R1C =
  R1C_L :: LinearExpression
  R1C_R :: LinearExpression
  R1C_O :: LinearExpression

text \<open>\<^verbatim>\<open>divByCoeff\<close>: the new value of \<^verbatim>\<open>res\<close>.\<close>

definition divByCoeff :: "('a::field, 'z) store_scheme \<Rightarrow> 'a \<Rightarrow> nat \<Rightarrow> 'a outcome" where
  "divByCoeff s res cID =
     (if cID = CoeffIdOne then Return res
      else if cID = CoeffIdMinusOne then Return (- res)
      else if cID = CoeffIdZero then Panic ''division by 0''
      else if \<not> cID < length (Coefficients s) then Panic ''index out of range''
      else Return (res / Coefficients s ! cID))"

text \<open>
  The closure \<^verbatim>\<open>processLExp\<close>: it updates the accumulator \<^verbatim>\<open>val\<close> and the captured variables
  \<^verbatim>\<open>loc\<close> and \<^verbatim>\<open>termToCompute\<close>, here the pair \<open>lt\<close>.
\<close>

fun processLExp :: "('a::field, 'z) store_scheme \<Rightarrow> LinearExpression \<Rightarrow> 'a \<Rightarrow> nat \<Rightarrow> nat \<times> Term
     \<Rightarrow> ('a \<times> nat \<times> Term) outcome" where
  "processLExp s [] val locValue lt = Return (val, lt)"
| "processLExp s (t # l) val locValue lt =
     (let vID = VID t in
      if \<not> vID < length (solved s) then Panic ''index out of range''
      else if solved s ! vID then
        (case accumulateInto s t val of
           Panic m \<Rightarrow> Panic m
         | Return val' \<Rightarrow> processLExp s l val' locValue lt)
      else if fst lt \<noteq> 0 then Panic ''found more than one wire to instantiate''
      else processLExp s l val locValue (locValue, t))"

text \<open>The error of an unsatisfied constraint: \<^verbatim>\<open>fmt.Errorf("%s \<cdot> %s != %s", ...)\<close>, the dot in UTF-8.\<close>

definition mismatch :: "'a solver \<Rightarrow> 'a \<Rightarrow> 'a \<Rightarrow> 'a \<Rightarrow> error" where
  "mismatch s a b c =
     ErrorString (elemString s a @ [CHR 0x20, CHR 0xE2, CHR 0x8B, CHR 0x85, CHR 0x20]
                  @ elemString s b @ '' != '' @ elemString s c)"

text \<open>
  The accumulators \<^verbatim>\<open>a\<close>, \<^verbatim>\<open>b\<close>, \<^verbatim>\<open>c\<close> point into the vectors of the solver, so their
  current values are in the solver's state whenever it is read or returned: \<open>store_abc\<close>.
\<close>

definition store_abc :: "'a solver \<Rightarrow> nat \<Rightarrow> 'a \<Rightarrow> 'a \<Rightarrow> 'a \<Rightarrow> 'a solver" where
  "store_abc s cID a b c =
     s\<lparr>a_vec := (a_vec s)[cID := a], b_vec := (b_vec s)[cID := b], c_vec := (c_vec s)[cID := c]\<rparr>"

text \<open>The check \<^verbatim>\<open>if !check.Mul(a, b).Equal(c) { return wrapErrWithDebugInfo(...) }\<close>.\<close>

definition checkR1C :: "'a::field solver \<Rightarrow> nat \<Rightarrow> 'a \<Rightarrow> 'a \<Rightarrow> 'a \<Rightarrow> error option outcome" where
  "checkR1C s cID a b c =
     (if a * b \<noteq> c then
        (case wrapErrWithDebugInfo s cID (mismatch s a b c) of
           Panic m \<Rightarrow> Panic m
         | Return e \<Rightarrow> Return (Some e))
      else Return None)"

text \<open>The end of \<^verbatim>\<open>solveR1C\<close>: \<^verbatim>\<open>divByCoeff\<close>, then \<^verbatim>\<open>set\<close>.\<close>

definition instantiate :: "'a::field solver \<Rightarrow> Term \<Rightarrow> 'a \<Rightarrow> (error option \<times> 'a solver) outcome" where
  "instantiate s termToCompute wire =
     (case divByCoeff s wire (CID termToCompute) of
        Panic m \<Rightarrow> Panic m
      | Return w \<Rightarrow>
         (case solver_set s (int (VID termToCompute)) w of
            Panic m \<Rightarrow> Panic m
          | Return s' \<Rightarrow> Return (None, s')))"

definition solver_solveR1C :: "'a::field solver \<Rightarrow> nat \<Rightarrow> R1C \<Rightarrow> (error option \<times> 'a solver) outcome" where
  "solver_solveR1C s cID r =
     (if \<not> cID < length (a_vec s) then Panic ''index out of range''
      else if \<not> cID < length (b_vec s) then Panic ''index out of range''
      else if \<not> cID < length (c_vec s) then Panic ''index out of range''
      else
      (case processLExp s (R1C_L r) (a_vec s ! cID) 1 (0, \<lparr>CID = 0, VID = 0, IsConstant = False\<rparr>) of
         Panic m \<Rightarrow> Panic m
       | Return (a, lt1) \<Rightarrow>
      (case processLExp s (R1C_R r) (b_vec s ! cID) 2 lt1 of
         Panic m \<Rightarrow> Panic m
       | Return (b, lt2) \<Rightarrow>
      (case processLExp s (R1C_O r) (c_vec s ! cID) 3 lt2 of
         Panic m \<Rightarrow> Panic m
       | Return (c, loc, termToCompute) \<Rightarrow>
          (let s1 = store_abc s cID a b c in
           if loc = 0 then
             (case checkR1C s1 cID a b c of
                Panic m \<Rightarrow> Panic m
              | Return e \<Rightarrow> Return (e, s1))
           else if loc = 1 then
             (if b \<noteq> 0 then
                (let wire = c / b - a in
                 instantiate (store_abc s1 cID (a + wire) b c) termToCompute wire)
              else
                (case checkR1C s1 cID a b c of
                   Panic m \<Rightarrow> Panic m
                 | Return (Some e) \<Rightarrow> Return (Some e, s1)
                 | Return None \<Rightarrow> instantiate s1 termToCompute 0))
           else if loc = 2 then
             (if a \<noteq> 0 then
                (let wire = c / a - b in
                 instantiate (store_abc s1 cID a (b + wire) c) termToCompute wire)
              else
                (case checkR1C s1 cID a b c of
                   Panic m \<Rightarrow> Panic m
                 | Return (Some e) \<Rightarrow> Return (Some e, s1)
                 | Return None \<Rightarrow> instantiate s1 termToCompute 0))
           else
             (let wire = a * b - c in
              instantiate (store_abc s1 cID a b (c + wire)) termToCompute wire))))))"

subsection \<open>The level scheduler of bls12-381: the chunks of a level\<close>

text \<open>
  The loop \<^verbatim>\<open>for i := 0; i < nbTasks; i++\<close> of \<^verbatim>\<open>run\<close>: the chunks it sends to \<^verbatim>\<open>chTasks\<close>,
  in order. A slice expression out of bounds is a Go panic (bounds taken against the
  length of the level). The integers are Go's 64-bit \<^verbatim>\<open>int\<close>; every value here is bounded
  by the length of the level, so overflow is not modelled.
\<close>

function chunkLoop :: "'i list \<Rightarrow> int \<Rightarrow> int \<Rightarrow> int \<Rightarrow> int \<Rightarrow> int \<Rightarrow> 'i list list outcome" where
  "chunkLoop level nbIterationsPerCpus nbTasks i extraTasks extraTasksOffset =
     (if i < nbTasks then
        (let start = i * nbIterationsPerCpus + extraTasksOffset;
             end0 = start + nbIterationsPerCpus;
             end1 = (if extraTasks > 0 then end0 + 1 else end0);
             extraTasks' = (if extraTasks > 0 then extraTasks - 1 else extraTasks);
             extraTasksOffset' = (if extraTasks > 0 then extraTasksOffset + 1 else extraTasksOffset)
         in if \<not> (0 \<le> start \<and> start \<le> end1 \<and> end1 \<le> int (length level))
            then Panic ''slice bounds out of range''
            else (case chunkLoop level nbIterationsPerCpus nbTasks (i + 1) extraTasks' extraTasksOffset' of
                    Panic m \<Rightarrow> Panic m
                  | Return chunks \<Rightarrow> Return (take (nat (end1 - start)) (drop (nat start) level) # chunks)))
      else Return [])"
  by pat_completeness auto
termination
  by (relation "measure (\<lambda>(level, per, nbTasks, i, extra, off). nat (nbTasks - i))") auto

declare chunkLoop.simps [simp del]

text \<open>
  What \<^verbatim>\<open>run\<close> does with one level, given the field \<^verbatim>\<open>solver.nbTasks\<close> (the second
  argument): \<open>Sequential\<close>, or the chunks it dispatches. The
  threshold \<^verbatim>\<open>float64(len(level)) / 50.0 <= 1.0\<close> is \<open>length level \<le> 50\<close> and
  \<^verbatim>\<open>math.Ceil\<close> of the quotient is the integer ceiling (exact in floating point for every
  length below \<open>2^46\<close>). The division panics on zero.

  \<^verbatim>\<open>make(chan []int, solver.nbTasks)\<close> at the start of \<^verbatim>\<open>run\<close> panics with
  \<^verbatim>\<open>makechan: size out of range\<close> on a negative size, and on a size whose buffer (one slice
  header for each element) overflows the address space or exceeds what the runtime
  allocates. That bound belongs to the runtime and the platform, not to the repository:
  it is the parameter \<open>chanLimit\<close>, the largest size that \<^verbatim>\<open>make\<close> accepts for this channel.
  (The second channel, of \<^verbatim>\<open>error\<close> values, has smaller elements and accepts every size the
  first accepts.)
\<close>

datatype 'i dispatch = Sequential | Chunks "'i list list"

definition levelTasks :: "int \<Rightarrow> int \<Rightarrow> 'i list \<Rightarrow> 'i dispatch outcome" where
  "levelTasks chanLimit solver_nbTasks level =
     (let n = int (length level) in
      if solver_nbTasks < 0 \<or> chanLimit < solver_nbTasks then Panic ''makechan: size out of range''
      else if n \<le> 50 \<or> solver_nbTasks = 1 then Return Sequential
      else
        (let maxTasks = (n + 49) div 50;
             nbTasks = (if solver_nbTasks > maxTasks then maxTasks else solver_nbTasks)
         in if nbTasks = 0 then Panic ''integer divide by zero''
            else
              (let nbIterationsPerCpus = n div nbTasks;
                   nbTasks' = (if nbIterationsPerCpus < 1 then n else nbTasks);
                   nbIterationsPerCpus' = (if nbIterationsPerCpus < 1 then 1 else nbIterationsPerCpus);
                   extraTasks = n - nbTasks' * nbIterationsPerCpus'
               in (case chunkLoop level nbIterationsPerCpus' nbTasks' 0 extraTasks 0 of
                     Panic m \<Rightarrow> Panic m
                   | Return chunks \<Rightarrow> Return (Chunks chunks)))))"

section \<open>Concrete states\<close>

text \<open>
  A store over the rationals with three wires, the last one unsolved, and a coefficient
  table with the reserved entries and one more.
\<close>

definition ex_store :: "rat store" where
  "ex_store = \<lparr>values = [1, 3, 0], solved = [True, True, False], nbSolved = 2,
     Coefficients = [0, 1, 2, - 1, 5], mHintsFunctions = Map.empty, modulus = 7,
     toBigInt = (\<lambda>x. \<lfloor>x\<rfloor>), setBigInt = of_int, elemString = (\<lambda>x. ''?''),
     Sprintf = (\<lambda>f xs. f @ concat xs)\<rparr>"

text \<open>
  A solver state over the same three wires (the constant one, \<open>x = 3\<close> and an unsolved
  \<open>y\<close>), with room for two constraints and a debug entry for constraint 0.
\<close>

definition ex_solver :: "rat solver" where
  "ex_solver = \<lparr>values = [1, 3, 0], solved = [True, True, False], nbSolved = 2,
     Coefficients = [0, 1, 2, - 1, 5], mHintsFunctions = Map.empty, modulus = 7,
     toBigInt = (\<lambda>x. \<lfloor>x\<rfloor>), setBigInt = of_int, elemString = (\<lambda>x. Itoa \<lfloor>x\<rfloor>),
     Sprintf = (\<lambda>f xs. f @ concat xs),
     MDebug = [0 \<mapsto> 0],
     DebugInfo = [\<lparr>Caller = ''main.go'', Format = ''x*x == '', 
                   ToResolve = [[\<lparr>CID = 2, VID = 1, IsConstant = False\<rparr>], [\<lparr>CID = 1, VID = 2, IsConstant = False\<rparr>]], Stack = []\<rparr>],
     SymbolTable_Locations = [], SymbolTable_Functions = [],
     a_vec = [0, 0], b_vec = [0, 0], c_vec = [0, 0]\<rparr>"

text \<open>
  Constraints over these wires: \<open>x * x = y\<close>; \<open>y * 0 = 0\<close> and \<open>y * 0 = x\<close>, whose unknown
  stands on the left of a zero factor; and \<open>x * x = 5\<close>, which does not hold.
\<close>

definition r_square :: R1C where
  "r_square = \<lparr>R1C_L = [\<lparr>CID = 1, VID = 1, IsConstant = False\<rparr>],
                R1C_R = [\<lparr>CID = 1, VID = 1, IsConstant = False\<rparr>],
                R1C_O = [\<lparr>CID = 1, VID = 2, IsConstant = False\<rparr>]\<rparr>"
definition r_free :: R1C where
  "r_free = \<lparr>R1C_L = [\<lparr>CID = 1, VID = 2, IsConstant = False\<rparr>],
              R1C_R = [\<lparr>CID = 0, VID = 0, IsConstant = False\<rparr>],
              R1C_O = []\<rparr>"
definition r_free_bad :: R1C where
  "r_free_bad = \<lparr>R1C_L = [\<lparr>CID = 1, VID = 2, IsConstant = False\<rparr>],
              R1C_R = [\<lparr>CID = 0, VID = 0, IsConstant = False\<rparr>],
              R1C_O = [\<lparr>CID = 1, VID = 1, IsConstant = False\<rparr>]\<rparr>"
definition r_bad :: R1C where
  "r_bad = \<lparr>R1C_L = [\<lparr>CID = 1, VID = 1, IsConstant = False\<rparr>],
                R1C_R = [\<lparr>CID = 1, VID = 1, IsConstant = False\<rparr>],
                R1C_O = [\<lparr>CID = 4, VID = 0, IsConstant = False\<rparr>]\<rparr>"

text \<open>
  Hint functions: one doubles every input, one writes 42 and fails. A store and a
  solution with four wires, the last two unsolved; in the solution, wire 2 is the output
  of \<open>hint_B\<close> (the double of wire 1) and wire 3 the output of \<open>hint_A\<close> (the double of
  wire 2): chained hints. \<open>hint_F\<close> calls the failing function. The hint mappings of the
  other file: \<open>hm_again\<close> has the solved wire 1 for output, \<open>hm_early\<close> reads the unsolved
  wire 2, \<open>hm_fail\<close> calls the failing function.
\<close>

definition hint_double :: HintFunction where
  "hint_double q ins outs = (map (\<lambda>x. 2 * x) ins, None)"
definition hint_fail :: HintFunction where
  "hint_fail q ins outs = ([42], Some (ErrorString ''boom''))"

definition ex_store4 :: "rat store" where
  "ex_store4 = \<lparr>values = [1, 3, 0, 0], solved = [True, True, False, False], nbSolved = 2,
     Coefficients = [0, 1, 2, - 1, 5], mHintsFunctions = [0 \<mapsto> hint_double, 1 \<mapsto> hint_fail],
     modulus = 7, toBigInt = (\<lambda>x. \<lfloor>x\<rfloor>), setBigInt = of_int, elemString = (\<lambda>x. Itoa \<lfloor>x\<rfloor>),
     Sprintf = (\<lambda>f xs. f @ concat xs)\<rparr>"

definition hint_B :: Hint where
  "hint_B = \<lparr>ID = 0, Inputs = [[\<lparr>CID = 1, VID = 1, IsConstant = False\<rparr>]], Wires = [2]\<rparr>"
definition hint_A :: Hint where
  "hint_A = \<lparr>ID = 0, Inputs = [[\<lparr>CID = 1, VID = 2, IsConstant = False\<rparr>]], Wires = [3]\<rparr>"
definition hint_F :: Hint where
  "hint_F = \<lparr>ID = 1, Inputs = [[\<lparr>CID = 1, VID = 1, IsConstant = False\<rparr>]], Wires = [2]\<rparr>"

definition ex_solution :: "rat solution" where
  "ex_solution = \<lparr>values = [1, 3, 0, 0], solved = [True, True, False, False], nbSolved = 2,
     Coefficients = [0, 1, 2, - 1, 5], mHintsFunctions = [0 \<mapsto> hint_double, 1 \<mapsto> hint_fail],
     modulus = 7, toBigInt = (\<lambda>x. \<lfloor>x\<rfloor>), setBigInt = of_int, elemString = (\<lambda>x. Itoa \<lfloor>x\<rfloor>),
     Sprintf = (\<lambda>f xs. f @ concat xs), mHints = [2 \<mapsto> hint_B, 3 \<mapsto> hint_A]\<rparr>"

definition hm_again :: HintMapping where
  "hm_again = \<lparr>HintID = 0, HM_Inputs = [[\<lparr>CID = 1, VID = 1, IsConstant = False\<rparr>]],
     OutputRange_Start = 1, OutputRange_End = 2\<rparr>"
definition hm_early :: HintMapping where
  "hm_early = \<lparr>HintID = 0, HM_Inputs = [[\<lparr>CID = 1, VID = 2, IsConstant = False\<rparr>]],
     OutputRange_Start = 3, OutputRange_End = 4\<rparr>"
definition hm_fail :: HintMapping where
  "hm_fail = \<lparr>HintID = 1, HM_Inputs = [[\<lparr>CID = 1, VID = 1, IsConstant = False\<rparr>]],
     OutputRange_Start = 2, OutputRange_End = 3\<rparr>"

section \<open>Properties\<close>

subsection \<open>The value store\<close>

text \<open>
  Claim C3. For every wire id of the store, \<open>set\<close> panics if the wire is already solved;
  otherwise it stores the value at the wire's index, marks the wire solved and adds one
  to the solved-count (a 64-bit counter), and it changes nothing else: every other wire
  keeps its value and its flag, and the lengths stay.
\<close>

theorem set_once:
  assumes "0 \<le> i" and "i < int (length (solved s))" and "i < int (length (values s))"
  shows "(solved s ! nat i \<longrightarrow>
            solver_set s i v = Panic ''solving the same wire twice should never happen.'') \<and>
         (\<not> solved s ! nat i \<longrightarrow>
            (\<exists>s'. solver_set s i v = Return s' \<and>
                  s' = s\<lparr>values := (values s)[nat i := v], solved := (solved s)[nat i := True],
                         nbSolved := nbSolved s + 1\<rparr> \<and>
                  values s' ! nat i = v \<and> solved s' ! nat i \<and>
                  unat (nbSolved s') = (unat (nbSolved s) + 1) mod 2 ^ 64 \<and>
                  length (values s') = length (values s) \<and>
                  length (solved s') = length (solved s) \<and>
                  (\<forall>j. j \<noteq> nat i \<longrightarrow>
                        values s' ! j = values s ! j \<and> solved s' ! j = solved s ! j)))"
  using assms by (auto simp: solver_set_def unat_word_ariths)

theorem set_once_witness:
  "solver_set ex_store 2 9 =
     Return (ex_store\<lparr>values := [1, 3, 9], solved := [True, True, True], nbSolved := 3\<rparr>) \<and>
   solver_set ex_store 1 9 = Panic ''solving the same wire twice should never happen.''"
  using set_once [of 2 ex_store 9] set_once [of 1 ex_store 9] by (simp add: ex_store_def)

subsection \<open>The term evaluator\<close>

text \<open>
  Claim C6. For a term that is not constant and whose wire is solved, and a coefficient
  table that holds 0, 1, 2 and -1 at the reserved ids, \<open>computeTerm\<close> (both files) returns
  the table's entry times the wire's value, whichever shortcut it takes, and
  \<open>accumulateInto\<close> returns the accumulator plus that product.
\<close>

theorem fast_paths_generic:
  assumes "\<not> IsConstant t" and "VID t < length (solved s)" and "VID t < length (values s)"
    and "solved s ! VID t" and "CID t < length (Coefficients s)"
    and "Coefficients s ! CoeffIdZero = 0" and "Coefficients s ! CoeffIdOne = 1"
    and "Coefficients s ! CoeffIdTwo = 2" and "Coefficients s ! CoeffIdMinusOne = - 1"
  shows "solver_computeTerm s t = Return (Coefficients s ! CID t * values s ! VID t) \<and>
         solution_computeTerm s t = Return (Coefficients s ! CID t * values s ! VID t) \<and>
         accumulateInto s t r = Return (r + Coefficients s ! CID t * values s ! VID t)"
  using assms
  by (auto simp: solver_computeTerm_def solution_computeTerm_def accumulateInto_def Let_def
      CoeffIdZero_def CoeffIdOne_def CoeffIdTwo_def CoeffIdMinusOne_def)

theorem fast_paths_generic_witness:
  "solver_computeTerm ex_store \<lparr>CID = 3, VID = 1, IsConstant = False\<rparr> = Return (- 3) \<and>
   solution_computeTerm ex_store \<lparr>CID = 3, VID = 1, IsConstant = False\<rparr> = Return (- 3) \<and>
   accumulateInto ex_store \<lparr>CID = 3, VID = 1, IsConstant = False\<rparr> 10 = Return 7"
  using fast_paths_generic [of "\<lparr>CID = 3, VID = 1, IsConstant = False\<rparr>" ex_store 10]
  by (simp add: ex_store_def CoeffIdZero_def CoeffIdOne_def CoeffIdTwo_def CoeffIdMinusOne_def)

text \<open>
  Claim C7, as stated, fails: a term with coefficient id zero whose wire is unsolved
  is computed (to zero), the guard being \<^verbatim>\<open>cID != 0 && !s.solved[vID]\<close>.
\<close>

theorem computeTerm_unsolved_counterexample:
  "\<not> IsConstant \<lparr>CID = 0, VID = 2, IsConstant = False\<rparr> \<and>
   \<not> solved ex_store ! VID \<lparr>CID = 0, VID = 2, IsConstant = False\<rparr> \<and>
   solver_computeTerm ex_store \<lparr>CID = 0, VID = 2, IsConstant = False\<rparr> = Return 0"
  by (simp add: ex_store_def solver_computeTerm_def CoeffIdZero_def)

text \<open>
  Claim C7, amended. For a term that is not constant and has a coefficient id other than
  zero, \<open>computeTerm\<close> (both files) panics when the wire is unsolved; with coefficient id
  zero it returns zero, whatever the wires are. In bls12-381 a constant term returns the
  table's entry for its coefficient id, whatever the wires are; in bn254 \<open>computeTerm\<close>
  has no constant case and does not look at the tag.
\<close>

theorem computeTerm_unsolved:
  "(IsConstant t \<and> CID t < length (Coefficients s) \<longrightarrow>
      solver_computeTerm (s\<lparr>values := vs, solved := sv\<rparr>) t = Return (Coefficients s ! CID t)) \<and>
   (\<not> IsConstant t \<and> CID t \<noteq> 0 \<and> VID t < length (solved s) \<and> \<not> solved s ! VID t \<longrightarrow>
      solver_computeTerm s t = Panic ''computing a term with an unsolved wire'') \<and>
   (\<not> IsConstant t \<and> CID t = 0 \<longrightarrow>
      solver_computeTerm (s\<lparr>values := vs, solved := sv\<rparr>) t = Return 0) \<and>
   (CID t \<noteq> 0 \<and> VID t < length (solved s) \<and> \<not> solved s ! VID t \<longrightarrow>
      solution_computeTerm s t = Panic ''computing a term with an unsolved wire'') \<and>
   (CID t = 0 \<longrightarrow> solution_computeTerm (s\<lparr>values := vs, solved := sv\<rparr>) t = Return 0) \<and>
   solution_computeTerm s (t\<lparr>IsConstant := k\<rparr>) = solution_computeTerm s t"
  by (simp add: solver_computeTerm_def solution_computeTerm_def Let_def CoeffIdZero_def)

theorem computeTerm_unsolved_witness:
  "solver_computeTerm ex_store \<lparr>CID = 4, VID = 4294967295, IsConstant = True\<rparr> = Return 5 \<and>
   solver_computeTerm ex_store \<lparr>CID = 1, VID = 2, IsConstant = False\<rparr>
     = Panic ''computing a term with an unsolved wire'' \<and>
   solution_computeTerm ex_store \<lparr>CID = 1, VID = 2, IsConstant = False\<rparr>
     = Panic ''computing a term with an unsolved wire'' \<and>
   solution_computeTerm ex_store \<lparr>CID = 0, VID = 2, IsConstant = False\<rparr> = Return 0"
  using computeTerm_unsolved [where t = "\<lparr>CID = 4, VID = 4294967295, IsConstant = True\<rparr>" and s = ex_store
      and vs = "values ex_store" and sv = "solved ex_store"]
    computeTerm_unsolved [where t = "\<lparr>CID = 1, VID = 2, IsConstant = False\<rparr>" and s = ex_store]
    computeTerm_unsolved [where t = "\<lparr>CID = 0, VID = 2, IsConstant = False\<rparr>" and s = ex_store
      and vs = "values ex_store" and sv = "solved ex_store"]
  by (simp add: ex_store_def)

subsection \<open>The R1C solver\<close>

text \<open>
  What \<open>processLExp\<close> returns tells where the unknown is: the pair it was given, or the
  side it was called for together with a term whose wire is unsolved.
\<close>

lemma processLExp_found:
  "processLExp s l val k lt = Return (v, lt') \<Longrightarrow>
     lt' = lt \<or> (fst lt = 0 \<and> fst lt' = k \<and> VID (snd lt') < length (solved s) \<and> \<not> solved s ! VID (snd lt'))"
proof (induction l arbitrary: val lt)
  case Nil
  then show ?case by simp
next
  case (Cons t l)
  show ?case
  proof (cases "VID t < length (solved s)")
    case False
    with Cons.prems show ?thesis by (simp add: Let_def)
  next
    case inr: True
    show ?thesis
    proof (cases "solved s ! VID t")
      case True
      with inr Cons.prems obtain val' where "accumulateInto s t val = Return val'"
        and "processLExp s l val' k lt = Return (v, lt')"
        by (auto simp: Let_def split: outcome.splits)
      then show ?thesis using Cons.IH by blast
    next
      case False
      with inr Cons.prems have z: "fst lt = 0" and p: "processLExp s l val k (k, t) = Return (v, lt')"
        by (auto simp: Let_def split: if_splits)
      from Cons.IH [OF p] show ?thesis
      proof
        assume "lt' = (k, t)"
        with z inr False show ?thesis by simp
      next
        assume "fst (k, t) = 0 \<and> fst lt' = k \<and> VID (snd lt') < length (solved s) \<and> \<not> solved s ! VID (snd lt')"
        with z show ?thesis by simp
      qed
    qed
  qed
qed

lemma processLExp_unknown:
  assumes "processLExp s l val k (0, t0) = Return (v, k, t)" and "k \<noteq> 0"
  shows "VID t < length (solved s) \<and> \<not> solved s ! VID t"
  using processLExp_found [OF assms(1)] assms(2) by auto

lemma processLExp_kept:
  assumes "processLExp s l val k (j, t) = Return (v, lt')" and "j \<noteq> 0"
  shows "lt' = (j, t)"
  using processLExp_found [OF assms(1)] assms(2) by auto

lemma store_abc_simps [simp]:
  "values (store_abc s cID a b c) = values s"
  "solved (store_abc s cID a b c) = solved s"
  "nbSolved (store_abc s cID a b c) = nbSolved s"
  "Coefficients (store_abc s cID a b c) = Coefficients s"
  "MDebug (store_abc s cID a b c) = MDebug s"
  "DebugInfo (store_abc s cID a b c) = DebugInfo s"
  "store_abc (store_abc s cID a b c) cID a' b' c' = store_abc s cID a' b' c'"
  by (simp_all add: store_abc_def)

lemma divByCoeff_store_abc [simp]: "divByCoeff (store_abc s cID a b c) x k = divByCoeff s x k"
  by (simp add: divByCoeff_def)

lemma divByCoeff_cases:
  "divByCoeff s x CoeffIdOne = Return x"
  "divByCoeff s x CoeffIdMinusOne = Return (- x)"
  "divByCoeff s x CoeffIdZero = Panic ''division by 0''"
  "k \<noteq> CoeffIdOne \<Longrightarrow> k \<noteq> CoeffIdMinusOne \<Longrightarrow> k \<noteq> CoeffIdZero \<Longrightarrow> k < length (Coefficients s)
     \<Longrightarrow> divByCoeff s x k = Return (x / Coefficients s ! k)"
  by (simp_all add: divByCoeff_def CoeffIdZero_def CoeffIdOne_def CoeffIdMinusOne_def)

lemma instantiate_unsolved:
  assumes "VID t < length (solved s)" and "\<not> solved s ! VID t" and "length (values s) = length (solved s)"
  shows "instantiate s t x =
     (case divByCoeff s x (CID t) of
        Panic m \<Rightarrow> Panic m
      | Return w \<Rightarrow> Return (None, s\<lparr>values := (values s)[VID t := w],
            solved := (solved s)[VID t := True], nbSolved := nbSolved s + 1\<rparr>))"
  using assms by (simp add: instantiate_def solver_set_def split: outcome.splits)

lemma mismatch_store_abc [simp]: "mismatch (store_abc s cID a b c) = mismatch s"
  by (simp add: mismatch_def store_abc_def fun_eq_iff)

lemma wrapErr_shape:
  "wrapErrWithDebugInfo s cID err = Return e \<Longrightarrow>
     Err e = err \<and> CID_of e = int cID \<and> (DebugInfo_of e \<noteq> None \<longleftrightarrow> MDebug s (int cID) \<noteq> None) \<and>
     (\<exists>d. e = UnsatisfiedConstraintError err (int cID) d)"
  by (auto simp: wrapErrWithDebugInfo_def split: option.splits if_splits outcome.splits)

lemmas ev = ex_solver_def accumulateInto_def CoeffIdZero_def CoeffIdOne_def CoeffIdTwo_def CoeffIdMinusOne_def
  Let_def store_abc_def

text \<open>
  Claim C5. When the scan finds no unknown in \<open>L\<close> and \<open>R\<close> (totals \<open>a\<close> and \<open>b\<close>) and the
  unknown term \<open>t\<close> in \<open>O\<close> (known part \<open>c\<close>), \<open>solveR1C\<close> computes \<open>a * b - c\<close>, whatever
  \<open>a\<close> and \<open>b\<close> are, adds it to \<open>c\<close>, divides it by the coefficient of \<open>t\<close> and sets the wire
  of \<open>t\<close>; \<open>divByCoeff\<close> is the identity for the id one, negation for minus-one, a panic
  for zero and a field division by the table's entry for every other id.
\<close>

theorem solveR1C_unknown_O:
  fixes s :: "'a::field solver"
  assumes "cID < length (a_vec s)" and "cID < length (b_vec s)" and "cID < length (c_vec s)"
    and "length (values s) = length (solved s)"
    and L: "processLExp s (R1C_L r) (a_vec s ! cID) 1 (0, \<lparr>CID = 0, VID = 0, IsConstant = False\<rparr>)
             = Return (a, 0, \<lparr>CID = 0, VID = 0, IsConstant = False\<rparr>)"
    and R: "processLExp s (R1C_R r) (b_vec s ! cID) 2 (0, \<lparr>CID = 0, VID = 0, IsConstant = False\<rparr>)
             = Return (b, 0, \<lparr>CID = 0, VID = 0, IsConstant = False\<rparr>)"
    and O: "processLExp s (R1C_O r) (c_vec s ! cID) 3 (0, \<lparr>CID = 0, VID = 0, IsConstant = False\<rparr>)
             = Return (c, 3, t)"
  shows "solver_solveR1C s cID r =
           (case divByCoeff s (a * b - c) (CID t) of
              Panic m \<Rightarrow> Panic m
            | Return w \<Rightarrow>
                Return (None, s\<lparr>values := (values s)[VID t := w],
                                 solved := (solved s)[VID t := True],
                                 nbSolved := nbSolved s + 1,
                                 a_vec := (a_vec s)[cID := a],
                                 b_vec := (b_vec s)[cID := b],
                                 c_vec := (c_vec s)[cID := c + (a * b - c)]\<rparr>)) \<and>
         divByCoeff s x CoeffIdOne = Return x \<and>
         divByCoeff s x CoeffIdMinusOne = Return (- x) \<and>
         divByCoeff s x CoeffIdZero = Panic ''division by 0'' \<and>
         (k \<noteq> CoeffIdOne \<and> k \<noteq> CoeffIdMinusOne \<and> k \<noteq> CoeffIdZero \<and> k < length (Coefficients s)
            \<longrightarrow> divByCoeff s x k = Return (x / Coefficients s ! k))"
proof -
  from processLExp_unknown [OF O] have u: "VID t < length (solved s)" "\<not> solved s ! VID t"
    by simp_all
  let ?s2 = "store_abc (store_abc s cID a b c) cID a b (c + (a * b - c))"
  have i: "instantiate ?s2 t (a * b - c) =
     (case divByCoeff ?s2 (a * b - c) (CID t) of
        Panic m \<Rightarrow> Panic m
      | Return w \<Rightarrow> Return (None, ?s2\<lparr>values := (values ?s2)[VID t := w],
            solved := (solved ?s2)[VID t := True], nbSolved := nbSolved ?s2 + 1\<rparr>))"
    by (rule instantiate_unsolved) (use u assms(4) in simp_all)
  have "solver_solveR1C s cID r = instantiate ?s2 t (a * b - c)"
    using assms(1-3) L R O by (simp add: solver_solveR1C_def Let_def)
  with i have "solver_solveR1C s cID r =
      (case divByCoeff s (a * b - c) (CID t) of
        Panic m \<Rightarrow> Panic m
      | Return w \<Rightarrow> Return (None, ?s2\<lparr>values := (values s)[VID t := w],
            solved := (solved s)[VID t := True], nbSolved := nbSolved s + 1\<rparr>))"
    by (simp split: outcome.splits)
  then show ?thesis
    by (simp add: divByCoeff_cases store_abc_def split: outcome.splits)
qed

theorem solveR1C_unknown_O_witness:
  "solver_solveR1C ex_solver 0 r_square =
     Return (None, ex_solver\<lparr>values := [1, 3, 9], solved := [True, True, True], nbSolved := 3,
                             a_vec := [3, 0], b_vec := [3, 0], c_vec := [9, 0]\<rparr>)"
  using solveR1C_unknown_O [of 0 ex_solver r_square 3 3 0 "\<lparr>CID = 1, VID = 2, IsConstant = False\<rparr>"]
  by (simp add: ev r_square_def divByCoeff_def)

text \<open>
  Claim C4, as stated, fails: with the unknown on \<open>L\<close>, \<open>b = 0\<close> and \<open>c = 0\<close> the check
  passes, and the code goes on to \<open>divByCoeff\<close> and \<open>set\<close>: the unknown wire is solved,
  with the value zero.
\<close>

theorem solveR1C_zero_factor_counterexample:
  "\<not> solved ex_solver ! 2 \<and>
   processLExp ex_solver (R1C_L r_free) (a_vec ex_solver ! 1) 1 (0, \<lparr>CID = 0, VID = 0, IsConstant = False\<rparr>)
     = Return (0, 1, \<lparr>CID = 1, VID = 2, IsConstant = False\<rparr>) \<and>
   processLExp ex_solver (R1C_R r_free) (b_vec ex_solver ! 1) 2 (1, \<lparr>CID = 1, VID = 2, IsConstant = False\<rparr>)
     = Return (0, 1, \<lparr>CID = 1, VID = 2, IsConstant = False\<rparr>) \<and>
   solver_solveR1C ex_solver 1 r_free =
     Return (None, ex_solver\<lparr>values := [1, 3, 0], solved := [True, True, True], nbSolved := 3\<rparr>)"
  by (simp add: ev r_free_def solver_solveR1C_def checkR1C_def instantiate_def divByCoeff_def solver_set_def)

text \<open>
  Claim C4, amended. When the unknown term \<open>t\<close> is on \<open>L\<close> and \<open>b = 0\<close> (or on \<open>R\<close> and
  \<open>a = 0\<close>), \<open>solveR1C\<close> checks \<open>a * b = c\<close>, that is \<open>c = 0\<close>. If the check fails, it
  returns an \<open>UnsatisfiedConstraintError\<close> and the wire of \<open>t\<close> stays unsolved. If it
  holds, the wire of \<open>t\<close> is set to zero (zero divided by the coefficient), except
  that a coefficient id zero panics.
\<close>

theorem solveR1C_zero_factor:
  fixes s :: "'a::field solver"
  assumes "cID < length (a_vec s)" and "cID < length (b_vec s)" and "cID < length (c_vec s)"
    and "length (values s) = length (solved s)"
    and "(processLExp s (R1C_L r) (a_vec s ! cID) 1 (0, \<lparr>CID = 0, VID = 0, IsConstant = False\<rparr>)
             = Return (a, 1, t) \<and>
          processLExp s (R1C_R r) (b_vec s ! cID) 2 (1, t) = Return (b, 1, t) \<and>
          processLExp s (R1C_O r) (c_vec s ! cID) 3 (1, t) = Return (c, 1, t) \<and> b = 0)
       \<or> (processLExp s (R1C_L r) (a_vec s ! cID) 1 (0, \<lparr>CID = 0, VID = 0, IsConstant = False\<rparr>)
             = Return (a, 0, \<lparr>CID = 0, VID = 0, IsConstant = False\<rparr>) \<and>
          processLExp s (R1C_R r) (b_vec s ! cID) 2 (0, \<lparr>CID = 0, VID = 0, IsConstant = False\<rparr>)
             = Return (b, 2, t) \<and>
          processLExp s (R1C_O r) (c_vec s ! cID) 3 (2, t) = Return (c, 2, t) \<and> a = 0)"
  shows "(c \<noteq> 0 \<longrightarrow>
            (\<forall>e. wrapErrWithDebugInfo (store_abc s cID a b c) cID (mismatch s a b c) = Return e \<longrightarrow>
                 solver_solveR1C s cID r = Return (Some e, store_abc s cID a b c) \<and>
                 (\<exists>d. e = UnsatisfiedConstraintError (mismatch s a b c) (int cID) d) \<and>
                 solved (store_abc s cID a b c) = solved s \<and>
                 values (store_abc s cID a b c) = values s \<and> \<not> solved s ! VID t)) \<and>
         (c = 0 \<and> CID t \<noteq> CoeffIdZero \<and>
            (CID t = CoeffIdOne \<or> CID t = CoeffIdMinusOne \<or> CID t < length (Coefficients s)) \<longrightarrow>
            solver_solveR1C s cID r =
              Return (None, s\<lparr>values := (values s)[VID t := 0],
                               solved := (solved s)[VID t := True],
                               nbSolved := nbSolved s + 1,
                               a_vec := (a_vec s)[cID := a],
                               b_vec := (b_vec s)[cID := b],
                               c_vec := (c_vec s)[cID := c]\<rparr>)) \<and>
         (c = 0 \<and> CID t = CoeffIdZero \<longrightarrow> solver_solveR1C s cID r = Panic ''division by 0'')"
proof -
  let ?s1 = "store_abc s cID a b c"
  have u: "VID t < length (solved s) \<and> \<not> solved s ! VID t"
    using assms(5)
  proof
    assume h: "processLExp s (R1C_L r) (a_vec s ! cID) 1 (0, \<lparr>CID = 0, VID = 0, IsConstant = False\<rparr>)
             = Return (a, 1, t) \<and>
          processLExp s (R1C_R r) (b_vec s ! cID) 2 (1, t) = Return (b, 1, t) \<and>
          processLExp s (R1C_O r) (c_vec s ! cID) 3 (1, t) = Return (c, 1, t) \<and> b = 0"
    then have "processLExp s (R1C_L r) (a_vec s ! cID) 1 (0, \<lparr>CID = 0, VID = 0, IsConstant = False\<rparr>)
             = Return (a, 1, t)" by (rule conjunct1)
    from processLExp_unknown [OF this] show ?thesis by simp
  next
    assume h: "processLExp s (R1C_L r) (a_vec s ! cID) 1 (0, \<lparr>CID = 0, VID = 0, IsConstant = False\<rparr>)
             = Return (a, 0, \<lparr>CID = 0, VID = 0, IsConstant = False\<rparr>) \<and>
          processLExp s (R1C_R r) (b_vec s ! cID) 2 (0, \<lparr>CID = 0, VID = 0, IsConstant = False\<rparr>)
             = Return (b, 2, t) \<and>
          processLExp s (R1C_O r) (c_vec s ! cID) 3 (2, t) = Return (c, 2, t) \<and> a = 0"
    then have "processLExp s (R1C_R r) (b_vec s ! cID) 2 (0, \<lparr>CID = 0, VID = 0, IsConstant = False\<rparr>)
             = Return (b, 2, t)" by simp
    from processLExp_unknown [OF this] show ?thesis by simp
  qed
  have ab: "a * b = 0" using assms(5) by auto
  have run: "solver_solveR1C s cID r =
     (case checkR1C ?s1 cID a b c of
        Panic m \<Rightarrow> Panic m
      | Return (Some e) \<Rightarrow> Return (Some e, ?s1)
      | Return None \<Rightarrow> instantiate ?s1 t 0)"
    using assms(1-3,5) by (auto simp: solver_solveR1C_def Let_def)
  have i: "instantiate ?s1 t 0 =
     (case divByCoeff ?s1 0 (CID t) of
        Panic m \<Rightarrow> Panic m
      | Return w \<Rightarrow> Return (None, ?s1\<lparr>values := (values ?s1)[VID t := w],
            solved := (solved ?s1)[VID t := True], nbSolved := nbSolved ?s1 + 1\<rparr>))"
    by (rule instantiate_unsolved) (use u assms(4) in simp_all)
  have chk: "checkR1C ?s1 cID a b c =
     (if c \<noteq> 0 then
        (case wrapErrWithDebugInfo ?s1 cID (mismatch s a b c) of
           Panic m \<Rightarrow> Panic m
         | Return e \<Rightarrow> Return (Some e))
      else Return None)"
    unfolding checkR1C_def ab by auto
  have bad: "c \<noteq> 0 \<Longrightarrow> wrapErrWithDebugInfo ?s1 cID (mismatch s a b c) = Return e \<Longrightarrow>
      solver_solveR1C s cID r = Return (Some e, ?s1)" for e
    unfolding run chk by simp
  have good: "c = 0 \<Longrightarrow> solver_solveR1C s cID r = instantiate ?s1 t 0"
    unfolding run chk by simp
  have p1: "c \<noteq> 0 \<longrightarrow>
            (\<forall>e. wrapErrWithDebugInfo ?s1 cID (mismatch s a b c) = Return e \<longrightarrow>
                 solver_solveR1C s cID r = Return (Some e, ?s1) \<and>
                 (\<exists>d. e = UnsatisfiedConstraintError (mismatch s a b c) (int cID) d) \<and>
                 solved ?s1 = solved s \<and> values ?s1 = values s \<and> \<not> solved s ! VID t)"
    using bad u wrapErr_shape by (metis store_abc_simps(1,2))
  have p2: "c = 0 \<and> CID t \<noteq> CoeffIdZero \<and>
            (CID t = CoeffIdOne \<or> CID t = CoeffIdMinusOne \<or> CID t < length (Coefficients s)) \<longrightarrow>
            solver_solveR1C s cID r =
              Return (None, s\<lparr>values := (values s)[VID t := 0],
                               solved := (solved s)[VID t := True],
                               nbSolved := nbSolved s + 1,
                               a_vec := (a_vec s)[cID := a],
                               b_vec := (b_vec s)[cID := b],
                               c_vec := (c_vec s)[cID := c]\<rparr>)"
    using good i by (auto simp: divByCoeff_def store_abc_def)
  have p3: "c = 0 \<and> CID t = CoeffIdZero \<longrightarrow> solver_solveR1C s cID r = Panic ''division by 0''"
    using good i by (auto simp: divByCoeff_def CoeffIdZero_def CoeffIdOne_def CoeffIdMinusOne_def)
  from p1 p2 p3 show ?thesis by blast
qed

theorem solveR1C_zero_factor_witness:
  "solver_solveR1C ex_solver 1 r_free =
     Return (None, ex_solver\<lparr>values := [1, 3, 0], solved := [True, True, True], nbSolved := 3\<rparr>) \<and>
   solver_solveR1C ex_solver 1 r_free_bad =
     Return (Some (UnsatisfiedConstraintError (mismatch ex_solver 0 0 3) 1 None),
             ex_solver\<lparr>c_vec := [0, 3]\<rparr>)"
  using solveR1C_zero_factor [of 1 ex_solver r_free 0 "\<lparr>CID = 1, VID = 2, IsConstant = False\<rparr>" 0 0]
   solveR1C_zero_factor [of 1 ex_solver r_free_bad 0 "\<lparr>CID = 1, VID = 2, IsConstant = False\<rparr>" 0 3]
  by (simp add: ev r_free_def r_free_bad_def wrapErrWithDebugInfo_def mismatch_def)

text \<open>
  Claim C8. When the scan finds no unknown and \<open>a * b \<noteq> c\<close>, \<open>solveR1C\<close> returns an
  \<open>UnsatisfiedConstraintError\<close> with the constraint's index; its message ends with the
  rendered debug entry if one is registered for the constraint, and with
  \<open>a \<cdot> b != c\<close> otherwise; the error carries debug information exactly when an entry
  is registered.
\<close>

theorem solveR1C_unsatisfied:
  fixes s :: "'a::field solver"
  assumes "cID < length (a_vec s)" and "cID < length (b_vec s)" and "cID < length (c_vec s)"
    and L: "processLExp s (R1C_L r) (a_vec s ! cID) 1 (0, \<lparr>CID = 0, VID = 0, IsConstant = False\<rparr>)
             = Return (a, 0, \<lparr>CID = 0, VID = 0, IsConstant = False\<rparr>)"
    and R: "processLExp s (R1C_R r) (b_vec s ! cID) 2 (0, \<lparr>CID = 0, VID = 0, IsConstant = False\<rparr>)
             = Return (b, 0, \<lparr>CID = 0, VID = 0, IsConstant = False\<rparr>)"
    and O: "processLExp s (R1C_O r) (c_vec s ! cID) 3 (0, \<lparr>CID = 0, VID = 0, IsConstant = False\<rparr>)
             = Return (c, 0, \<lparr>CID = 0, VID = 0, IsConstant = False\<rparr>)"
    and "a * b \<noteq> c"
  shows "(MDebug s (int cID) = None \<longrightarrow>
            solver_solveR1C s cID r =
              Return (Some (UnsatisfiedConstraintError (mismatch s a b c) (int cID) None),
                      store_abc s cID a b c) \<and>
            Error (UnsatisfiedConstraintError (mismatch s a b c) (int cID) None) =
              ''constraint #'' @ Itoa (int cID) @ '' is not satisfied: '' @ elemString s a
                @ [CHR 0x20, CHR 0xE2, CHR 0x8B, CHR 0x85, CHR 0x20] @ elemString s b
                @ '' != '' @ elemString s c) \<and>
         (\<forall>dID d. MDebug s (int cID) = Some dID \<and> dID < length (DebugInfo s) \<and>
                 solver_logValue (store_abc s cID a b c) (DebugInfo s ! dID) = Return d \<longrightarrow>
            solver_solveR1C s cID r =
              Return (Some (UnsatisfiedConstraintError (mismatch s a b c) (int cID) (Some d)),
                      store_abc s cID a b c) \<and>
            Error (UnsatisfiedConstraintError (mismatch s a b c) (int cID) (Some d)) =
              ''constraint #'' @ Itoa (int cID) @ '' is not satisfied: '' @ d) \<and>
         (\<forall>e s'. solver_solveR1C s cID r = Return (e, s') \<longrightarrow>
            (\<exists>u. e = Some u \<and> CID_of u = int cID \<and>
                 (DebugInfo_of u \<noteq> None \<longleftrightarrow> MDebug s (int cID) \<noteq> None)))"
proof -
  let ?s1 = "store_abc s cID a b c"
  have m: "mismatch ?s1 a b c = mismatch s a b c"
    by (simp add: mismatch_def store_abc_def)
  have run: "solver_solveR1C s cID r =
     (case wrapErrWithDebugInfo ?s1 cID (mismatch s a b c) of
        Panic m \<Rightarrow> Panic m
      | Return e \<Rightarrow> Return (Some e, ?s1))"
    using assms by (simp add: solver_solveR1C_def Let_def checkR1C_def m split: outcome.splits)
  have p1: "MDebug s (int cID) = None \<longrightarrow>
            solver_solveR1C s cID r =
              Return (Some (UnsatisfiedConstraintError (mismatch s a b c) (int cID) None), ?s1)"
    by (simp add: run wrapErrWithDebugInfo_def)
  have p2: "\<forall>dID d. MDebug s (int cID) = Some dID \<and> dID < length (DebugInfo s) \<and>
                 solver_logValue ?s1 (DebugInfo s ! dID) = Return d \<longrightarrow>
            solver_solveR1C s cID r =
              Return (Some (UnsatisfiedConstraintError (mismatch s a b c) (int cID) (Some d)), ?s1)"
    by (simp add: run wrapErrWithDebugInfo_def)
  have p3: "\<forall>e s'. solver_solveR1C s cID r = Return (e, s') \<longrightarrow>
            (\<exists>u. e = Some u \<and> CID_of u = int cID \<and>
                 (DebugInfo_of u \<noteq> None \<longleftrightarrow> MDebug s (int cID) \<noteq> None))"
    using wrapErr_shape [of ?s1 cID "mismatch s a b c"]
    by (auto simp: run split: outcome.splits)
  show ?thesis using p1 p2 p3 by (simp add: mismatch_def)
qed

theorem solveR1C_unsatisfied_witness:
  "solver_solveR1C ex_solver 1 r_bad =
     Return (Some (UnsatisfiedConstraintError (mismatch ex_solver 3 3 5) 1 None),
             ex_solver\<lparr>a_vec := [0, 3], b_vec := [0, 3], c_vec := [0, 5]\<rparr>) \<and>
   Error (UnsatisfiedConstraintError (mismatch ex_solver 3 3 5) 1 None) =
     ''constraint #1 is not satisfied: 3'' @ [CHR 0x20, CHR 0xE2, CHR 0x8B, CHR 0x85, CHR 0x20] @ ''3 != 5'' \<and>
   solver_solveR1C ex_solver 0 r_bad =
     Return (Some (UnsatisfiedConstraintError (mismatch ex_solver 3 3 5) 0 (Some ''x*x == 6<unsolved>'')),
             ex_solver\<lparr>a_vec := [3, 0], b_vec := [3, 0], c_vec := [5, 0]\<rparr>) \<and>
   Error (UnsatisfiedConstraintError (mismatch ex_solver 3 3 5) 0 (Some ''x*x == 6<unsolved>'')) =
     ''constraint #0 is not satisfied: x*x == 6<unsolved>''"
  using solveR1C_unsatisfied [of 1 ex_solver r_bad 3 3 5]
    solveR1C_unsatisfied [of 0 ex_solver r_bad 3 3 5]
  by (simp add: ev r_bad_def mismatch_def solver_logValue_def solver_computeTerm_def unsolvedVariable_def
      Itoa_def digits.simps)

subsection \<open>The level scheduler\<close>

text \<open>
  The loop, started anywhere: if the tasks left, \<open>per\<close> indices each and one more for
  each of the \<open>extra\<close> ones, make up the rest of the level, the loop returns their
  chunks, which concatenate to the rest of the level.
\<close>

lemma chunkLoop_chunks:
  "0 \<le> per \<Longrightarrow> 0 \<le> i \<Longrightarrow> i \<le> n \<Longrightarrow> 0 \<le> extra \<Longrightarrow> extra \<le> n - i \<Longrightarrow> 0 \<le> off \<Longrightarrow>
   i * per + off + (n - i) * per + extra = int (length level) \<Longrightarrow>
   \<exists>cs. chunkLoop level per n i extra off = Return cs \<and>
        concat cs = drop (nat (i * per + off)) level \<and>
        length cs = nat (n - i) \<and>
        (\<forall>j<length cs. int (length (cs ! j)) = per + (if int j < extra then 1 else 0))"
proof (induction level per n i extra off rule: chunkLoop.induct)
  case (1 level per n i extra off)
  show ?case
  proof (cases "i < n")
    case False
    with "1.prems" have "i = n" and "extra = 0" by auto
    with "1.prems" show ?thesis by (subst chunkLoop.simps) simp
  next
    case True
    define start where "start = i * per + off"
    define sz where "sz = per + (if extra > 0 then 1 else 0)"
    define extra' where "extra' = (if extra > 0 then extra - 1 else extra)"
    define off' where "off' = (if extra > 0 then off + 1 else off)"
    have next_start: "(i + 1) * per + off' = start + sz"
      by (simp add: start_def sz_def off'_def algebra_simps)
    have total: "start + (n - i) * per + extra = int (length level)"
      using "1.prems" by (simp add: start_def)
    have rest: "0 \<le> (n - i - 1) * per"
      using True "1.prems"(1) by simp
    have "(n - i) * per = per + (n - i - 1) * per"
      by (simp add: algebra_simps)
    with total rest "1.prems"(4) have fits: "start + sz \<le> int (length level)"
      by (auto simp: sz_def)
    have nonneg: "0 \<le> start" "0 \<le> sz"
      using "1.prems" by (simp_all add: start_def sz_def)
    have "\<exists>cs. chunkLoop level per n (i + 1) extra' off' = Return cs \<and>
        concat cs = drop (nat ((i + 1) * per + off')) level \<and>
        length cs = nat (n - (i + 1)) \<and>
        (\<forall>j<length cs. int (length (cs ! j)) = per + (if int j < extra' then 1 else 0))"
      unfolding extra'_def off'_def
    proof (rule "1.IH" [OF True refl refl refl refl refl])
      show "\<not> \<not> (0 \<le> i * per + off \<and>
              i * per + off \<le> (if 0 < extra then i * per + off + per + 1 else i * per + off + per) \<and>
              (if 0 < extra then i * per + off + per + 1 else i * per + off + per) \<le> int (length level))"
        using fits nonneg by (auto simp: start_def sz_def)
    qed (use True "1.prems" in \<open>auto simp: algebra_simps\<close>)
    then obtain cs where cs: "chunkLoop level per n (i + 1) extra' off' = Return cs"
      and cat: "concat cs = drop (nat (start + sz)) level"
      and len: "length cs = nat (n - (i + 1))"
      and sizes: "\<forall>j<length cs. int (length (cs ! j)) = per + (if int j < extra' then 1 else 0)"
      using next_start by auto
    let ?chunk = "take (nat sz) (drop (nat start) level)"
    have step: "chunkLoop level per n i extra off = Return (?chunk # cs)"
      using True fits nonneg cs
      by (subst chunkLoop.simps) (auto simp: Let_def start_def sz_def extra'_def off'_def)
    have "drop (nat (start + sz)) level = drop (nat sz) (drop (nat start) level)"
      using nonneg by (simp add: nat_add_distrib add.commute)
    with cat have "concat (?chunk # cs) = ?chunk @ drop (nat sz) (drop (nat start) level)"
      by (simp only: concat.simps)
    also have "\<dots> = drop (nat start) level"
      by (rule append_take_drop_id)
    finally have c: "concat (?chunk # cs) = drop (nat start) level" .
    have l: "int (length ?chunk) = sz"
      using fits nonneg by simp
    have s: "\<forall>j<length (?chunk # cs). int (length ((?chunk # cs) ! j)) = per + (if int j < extra then 1 else 0)"
    proof (intro allI impI)
      fix j assume "j < length (?chunk # cs)"
      show "int (length ((?chunk # cs) ! j)) = per + (if int j < extra then 1 else 0)"
      proof (cases j)
        case 0
        then show ?thesis using l by (simp add: sz_def)
      next
        case (Suc k)
        with \<open>j < length (?chunk # cs)\<close> sizes have "int (length (cs ! k)) = per + (if int k < extra' then 1 else 0)"
          by simp
        then show ?thesis using Suc "1.prems"(4) by (auto simp: extra'_def)
      qed
    qed
    from step c len s True show ?thesis
      by (auto simp: start_def)
  qed
qed

text \<open>
  Claim C9. For a level that \<open>run\<close> parallelizes (more than 50 instructions and more
  than one task, the number of tasks being one that \<^verbatim>\<open>make\<close> accepts as the size of the
  channel), the chunks sent to the workers are contiguous, their concatenation is
  the level, there are as many as tasks (at most one per 50 instructions, rounded up),
  and chunk \<open>j\<close> has the quotient of the level's length by the number of chunks, plus
  one if \<open>j\<close> is below the remainder: the sizes differ by at most one and the larger
  chunks come first.
\<close>

theorem level_chunks:
  assumes "1 < nbT" and "50 < length level" and "nbT \<le> chanLimit"
  shows "\<exists>cs. levelTasks chanLimit nbT level = Return (Chunks cs) \<and>
              concat cs = level \<and>
              int (length cs) = min nbT ((int (length level) + 49) div 50) \<and>
              (\<forall>j<length cs. length (cs ! j) =
                   length level div length cs + (if j < length level mod length cs then 1 else 0)) \<and>
              (\<forall>i<length cs. \<forall>j<length cs. length (cs ! i) \<le> length (cs ! j) + 1)"
proof -
  define n where "n = int (length level)"
  define k where "k = min nbT ((n + 49) div 50)"
  define per where "per = n div k"
  define extra where "extra = n - k * per"
  have n50: "50 < n" using assms(2) by (simp add: n_def)
  then have "2 \<le> (n + 49) div 50" and "(n + 49) div 50 \<le> n" by simp_all
  with assms(1) have k2: "2 \<le> k" and kn: "k \<le> n" by (simp_all add: k_def)
  from k2 kn have "0 < n div k"
    by (simp add: pos_imp_zdiv_pos_iff)
  then have per1: "1 \<le> per"
    by (simp add: per_def)
  have extra_mod: "extra = n mod k"
    unfolding extra_def per_def by (simp add: minus_mult_div_eq_mod)
  with k2 have extra_bounds: "0 \<le> extra" "extra < k" by simp_all
  have run: "levelTasks chanLimit nbT level =
     (case chunkLoop level per k 0 extra 0 of
        Panic m \<Rightarrow> Panic m
      | Return chunks \<Rightarrow> Return (Chunks chunks))"
  proof -
    have a: "\<not> (nbT < 0 \<or> chanLimit < nbT)" "\<not> (n \<le> 50 \<or> nbT = 1)"
      using assms(1,3) n50 by simp_all
    have b: "(if nbT > (n + 49) div 50 then (n + 49) div 50 else nbT) = k"
      by (simp add: k_def min_def)
    have c: "k \<noteq> 0" "\<not> n div k < 1"
      using k2 per1 by (simp_all add: per_def)
    show ?thesis
      unfolding levelTasks_def Let_def n_def [symmetric] b
      using a c by (simp only: if_False per_def extra_def)
  qed
  have "\<exists>cs. chunkLoop level per k 0 extra 0 = Return cs \<and>
        concat cs = drop (nat (0 * per + 0)) level \<and>
        length cs = nat (k - 0) \<and>
        (\<forall>j<length cs. int (length (cs ! j)) = per + (if int j < extra then 1 else 0))"
    by (rule chunkLoop_chunks) (use per1 k2 extra_bounds in \<open>auto simp: extra_def n_def\<close>)
  then obtain cs where cs: "chunkLoop level per k 0 extra 0 = Return cs"
    and cat: "concat cs = level" and len: "length cs = nat k"
    and sizes: "\<forall>j<length cs. int (length (cs ! j)) = per + (if int j < extra then 1 else 0)"
    by auto
  from len k2 have ik: "int (length cs) = k" by simp
  have sz: "length (cs ! j) = length level div length cs + (if j < length level mod length cs then 1 else 0)"
    if "j < length cs" for j
  proof -
    from sizes that have "int (length (cs ! j)) = per + (if int j < extra then 1 else 0)" by simp
    also have "per = int (length level div length cs)"
      by (simp add: per_def n_def ik [symmetric] zdiv_int)
    also have "extra = int (length level mod length cs)"
      by (simp add: extra_mod n_def ik [symmetric] zmod_int)
    finally show ?thesis by (simp split: if_splits)
  qed
  then have diff: "\<forall>i<length cs. \<forall>j<length cs. length (cs ! i) \<le> length (cs ! j) + 1"
    by simp
  from run cs cat ik sz diff show ?thesis
    by (simp add: k_def n_def)
qed

theorem level_chunks_witness:
  "levelTasks 1024 3 [0..<101::nat] = Return (Chunks [[0..<34], [34..<68], [68..<101]]) \<and>
   concat [[0..<34], [34..<68], [68..<101::nat]] = [0..<101]"
  using level_chunks [of 3 "[0..<101::nat]" 1024]
  by (simp add: levelTasks_def chunkLoop.simps Let_def take_upt drop_upt upt_add_eq_append [symmetric])

subsection \<open>The hint resolvers\<close>

text \<open>
  Setting wires that are distinct, within the store and unsolved succeeds: each gets its
  value, the others keep theirs, the counter grows by their number.
\<close>

lemma solver_set_Return:
  assumes "0 \<le> w" and "w < int (length (solved s))" and "w < int (length (values s))"
    and "\<not> solved s ! nat w"
  shows "solver_set s w v = Return (s\<lparr>values := (values s)[nat w := v],
           solved := (solved s)[nat w := True], nbSolved := nbSolved s + 1\<rparr>)"
  using assms by (simp add: solver_set_def)

lemma setAll_Return:
  "distinct (map fst wvs) \<Longrightarrow>
   (\<forall>wv\<in>set wvs. 0 \<le> fst wv \<and> fst wv < int (length (solved s)) \<and>
        fst wv < int (length (values s)) \<and> \<not> solved s ! nat (fst wv)) \<Longrightarrow>
   \<exists>vs sv. setAll s wvs = Return (s\<lparr>values := vs, solved := sv,
                                     nbSolved := nbSolved s + of_nat (length wvs)\<rparr>) \<and>
      length vs = length (values s) \<and> length sv = length (solved s) \<and>
      (\<forall>wv\<in>set wvs. sv ! nat (fst wv) \<and> vs ! nat (fst wv) = snd wv) \<and>
      (\<forall>j. int j \<notin> fst ` set wvs \<longrightarrow> sv ! j = solved s ! j \<and> vs ! j = values s ! j)"
proof (induction wvs arbitrary: s)
  case Nil
  show ?case
    by (rule exI [of _ "values s"], rule exI [of _ "solved s"]) simp
next
  case (Cons wv wvs)
  let ?s1 = "s\<lparr>values := (values s)[nat (fst wv) := snd wv],
           solved := (solved s)[nat (fst wv) := True], nbSolved := nbSolved s + 1\<rparr>"
  from Cons.prems have here: "0 \<le> fst wv" "fst wv < int (length (solved s))"
    "fst wv < int (length (values s))" "\<not> solved s ! nat (fst wv)"
    by simp_all
  then have step: "solver_set s (fst wv) (snd wv) = Return ?s1"
    by (rule solver_set_Return)
  have fresh: "fst wv \<notin> fst ` set wvs" and d: "distinct (map fst wvs)"
    using Cons.prems(1) by simp_all
  have rest: "\<forall>x\<in>set wvs. 0 \<le> fst x \<and> fst x < int (length (solved ?s1)) \<and>
        fst x < int (length (values ?s1)) \<and> \<not> solved ?s1 ! nat (fst x)"
  proof
    fix x assume x: "x \<in> set wvs"
    with fresh have "fst x \<noteq> fst wv" by (metis imageI)
    moreover from x Cons.prems(2) have "0 \<le> fst x" "fst x < int (length (solved s))"
      "fst x < int (length (values s))" "\<not> solved s ! nat (fst x)" by simp_all
    ultimately show "0 \<le> fst x \<and> fst x < int (length (solved ?s1)) \<and>
        fst x < int (length (values ?s1)) \<and> \<not> solved ?s1 ! nat (fst x)"
      using here by (simp add: nth_list_update)
  qed
  from Cons.IH [OF d rest] obtain vs sv where
    r: "setAll ?s1 wvs = Return (?s1\<lparr>values := vs, solved := sv,
                                     nbSolved := nbSolved ?s1 + of_nat (length wvs)\<rparr>)"
    and l: "length vs = length (values ?s1)" "length sv = length (solved ?s1)"
    and inn: "\<forall>x\<in>set wvs. sv ! nat (fst x) \<and> vs ! nat (fst x) = snd x"
    and out: "\<forall>j. int j \<notin> fst ` set wvs \<longrightarrow> sv ! j = solved ?s1 ! j \<and> vs ! j = values ?s1 ! j"
    by blast
  have "setAll s (wv # wvs) = Return (s\<lparr>values := vs, solved := sv,
                                     nbSolved := nbSolved s + of_nat (length (wv # wvs))\<rparr>)"
    using step r by (simp add: add.commute add.left_commute)
  moreover have "length vs = length (values s)" "length sv = length (solved s)"
    using l by simp_all
  moreover have "\<forall>x\<in>set (wv # wvs). sv ! nat (fst x) \<and> vs ! nat (fst x) = snd x"
  proof
    fix x assume "x \<in> set (wv # wvs)"
    then consider "x = wv" | "x \<in> set wvs" by auto
    then show "sv ! nat (fst x) \<and> vs ! nat (fst x) = snd x"
    proof cases
      case 1
      from fresh here(1) have "int (nat (fst wv)) \<notin> fst ` set wvs" by simp
      with out have "sv ! nat (fst wv) = solved ?s1 ! nat (fst wv)"
        "vs ! nat (fst wv) = values ?s1 ! nat (fst wv)" by blast+
      with 1 here show ?thesis by simp
    next
      case 2
      with inn show ?thesis by blast
    qed
  qed
  moreover have "\<forall>j. int j \<notin> fst ` set (wv # wvs) \<longrightarrow> sv ! j = solved s ! j \<and> vs ! j = values s ! j"
  proof (intro allI impI)
    fix j assume j: "int j \<notin> fst ` set (wv # wvs)"
    then have "int j \<notin> fst ` set wvs" and "j \<noteq> nat (fst wv)" using here(1) by auto
    with out show "sv ! j = solved s ! j \<and> vs ! j = values s ! j" by simp
  qed
  ultimately show ?case by blast
qed

lemma length_written [simp]: "length (written n outs) = n"
  by (simp add: written_def)

lemma setAll_zip:
  assumes "distinct ws" and "length vs0 = length ws"
    and "\<forall>w\<in>set ws. 0 \<le> w \<and> w < int (length (solved s)) \<and> w < int (length (values s)) \<and>
           \<not> solved s ! nat w"
  shows "\<exists>s'. setAll s (zip ws vs0) = Return s' \<and>
           (\<forall>i<length ws. solved s' ! nat (ws ! i) \<and> values s' ! nat (ws ! i) = vs0 ! i) \<and>
           (\<forall>j. int j \<notin> set ws \<longrightarrow> solved s' ! j = solved s ! j \<and> values s' ! j = values s ! j) \<and>
           length (solved s') = length (solved s) \<and> length (values s') = length (values s) \<and>
           nbSolved s' = nbSolved s + of_nat (length ws)"
proof -
  have m: "map fst (zip ws vs0) = ws" using assms(2) by simp
  have "\<exists>vs sv. setAll s (zip ws vs0) = Return (s\<lparr>values := vs, solved := sv,
                                     nbSolved := nbSolved s + of_nat (length (zip ws vs0))\<rparr>) \<and>
      length vs = length (values s) \<and> length sv = length (solved s) \<and>
      (\<forall>wv\<in>set (zip ws vs0). sv ! nat (fst wv) \<and> vs ! nat (fst wv) = snd wv) \<and>
      (\<forall>j. int j \<notin> fst ` set (zip ws vs0) \<longrightarrow> sv ! j = solved s ! j \<and> vs ! j = values s ! j)"
  proof (rule setAll_Return)
    show "distinct (map fst (zip ws vs0))" using assms(1) m by simp
    show "\<forall>wv\<in>set (zip ws vs0). 0 \<le> fst wv \<and> fst wv < int (length (solved s)) \<and>
        fst wv < int (length (values s)) \<and> \<not> solved s ! nat (fst wv)"
      using assms(3) by (auto dest: set_zip_leftD)
  qed
  then obtain vs sv where r: "setAll s (zip ws vs0) = Return (s\<lparr>values := vs, solved := sv,
                                     nbSolved := nbSolved s + of_nat (length (zip ws vs0))\<rparr>)"
    and l: "length vs = length (values s)" "length sv = length (solved s)"
    and inn: "\<forall>wv\<in>set (zip ws vs0). sv ! nat (fst wv) \<and> vs ! nat (fst wv) = snd wv"
    and out: "\<forall>j. int j \<notin> fst ` set (zip ws vs0) \<longrightarrow> sv ! j = solved s ! j \<and> vs ! j = values s ! j"
    by blast
  have i: "sv ! nat (ws ! i) \<and> vs ! nat (ws ! i) = vs0 ! i" if "i < length ws" for i
  proof -
    from that assms(2) have "(ws ! i, vs0 ! i) \<in> set (zip ws vs0)"
      by (metis in_set_zip fst_conv snd_conv)
    with inn show ?thesis by fastforce
  qed
  have f: "fst ` set (zip ws vs0) = set ws"
    using m by (metis set_map)
  show ?thesis
    using r l i out assms(2) by (simp add: f)
qed

lemma solver_hint_error:
  fixes s :: "('a::field, 'z) store_scheme"
  assumes f: "mHintsFunctions s (HintID h) = Some f"
    and ins: "solver_hintInputs s (HM_Inputs h) [] = Return ins"
    and n: "n = unat (OutputRange_End h - OutputRange_Start h)"
    and call: "f (modulus s) ins (replicate n 0) = (outs, err)"
    and free: "\<forall>i<n. unat (OutputRange_Start h) + i < length (solved s) \<and>
                    unat (OutputRange_Start h) + i < length (values s) \<and>
                    \<not> solved s ! (unat (OutputRange_Start h) + i)"
  shows "\<exists>s'. solver_solveWithHint s h = Return (err, s') \<and>
           (\<forall>i<n. solved s' ! (unat (OutputRange_Start h) + i) \<and>
                  values s' ! (unat (OutputRange_Start h) + i) = setBigInt s (written n outs ! i)) \<and>
           nbSolved s' = nbSolved s + of_nat n"
proof -
  define st where "st = unat (OutputRange_Start h)"
  define ws where "ws = map (\<lambda>i. int (st + i)) [0..<n]"
  let ?vs = "map (setBigInt s) (written n outs)"
  have ws_eq: "map (\<lambda>i. int (unat (OutputRange_Start h)) + int i) [0..<n] = ws"
    by (simp add: ws_def st_def)
  have free': "\<forall>i<n. st + i < length (solved s) \<and> st + i < length (values s) \<and> \<not> solved s ! (st + i)"
    using free by (simp add: st_def)
  have "\<exists>s'. setAll s (zip ws ?vs) = Return s' \<and>
           (\<forall>i<length ws. solved s' ! nat (ws ! i) \<and> values s' ! nat (ws ! i) = ?vs ! i) \<and>
           (\<forall>j. int j \<notin> set ws \<longrightarrow> solved s' ! j = solved s ! j \<and> values s' ! j = values s ! j) \<and>
           length (solved s') = length (solved s) \<and> length (values s') = length (values s) \<and>
           nbSolved s' = nbSolved s + of_nat (length ws)"
  proof (rule setAll_zip)
    show "distinct ws" by (simp add: ws_def distinct_map inj_on_def)
    show "length ?vs = length ws" by (simp add: ws_def)
    show "\<forall>w\<in>set ws. 0 \<le> w \<and> w < int (length (solved s)) \<and> w < int (length (values s)) \<and>
           \<not> solved s ! nat w"
    proof
      fix w assume "w \<in> set ws"
      then obtain i where i: "i < n" and w: "w = int (st + i)"
        by (auto simp: ws_def)
      from free' i have "st + i < length (solved s)" "st + i < length (values s)"
        "\<not> solved s ! (st + i)" by simp_all
      then show "0 \<le> w \<and> w < int (length (solved s)) \<and> w < int (length (values s)) \<and>
           \<not> solved s ! nat w"
        unfolding w by (simp only: nat_int of_nat_less_iff of_nat_0_le_iff simp_thms)
    qed
  qed
  then obtain s' where r: "setAll s (zip ws ?vs) = Return s'"
    and inn: "\<forall>i<length ws. solved s' ! nat (ws ! i) \<and> values s' ! nat (ws ! i) = ?vs ! i"
    and nb: "nbSolved s' = nbSolved s + of_nat (length ws)"
    by blast
  have "solver_solveWithHint s h = Return (err, s')"
    using f ins call r unfolding solver_solveWithHint_def Let_def n [symmetric] ws_eq by simp
  moreover have "solved s' ! (st + i) \<and> values s' ! (st + i) = setBigInt s (written n outs ! i)"
    if "i < n" for i
  proof -
    from that have "nat (ws ! i) = st + i" by (simp add: ws_def del: of_nat_add)
    with inn that show ?thesis by (simp add: ws_def del: of_nat_add)
  qed
  ultimately show ?thesis using nb by (simp add: st_def ws_def)
qed

lemma solution_hint_error:
  fixes u :: "'a::field solution"
  assumes "0 \<le> vID" and "vID < int (length (solved u))" and "\<not> solved u ! nat vID"
    and "mHintsFunctions u (ID g) = Some f"
    and "hintInputs (solution_solveWithHint k) u (Inputs g) [] = Some (Return (None, u1, ins))"
    and "f (modulus u1) ins (replicate (length (Wires g)) 0) = (outs, err)"
    and "distinct (Wires g)"
    and "\<forall>w\<in>set (Wires g). 0 \<le> w \<and> w < int (length (solved u1)) \<and> w < int (length (values u1)) \<and>
           \<not> solved u1 ! nat w"
  shows "\<exists>u'. solution_solveWithHint (Suc k) u vID g = Some (Return (err, u')) \<and>
           (\<forall>i<length (Wires g). solved u' ! nat (Wires g ! i) \<and>
                values u' ! nat (Wires g ! i) = setBigInt u1 (written (length (Wires g)) outs ! i)) \<and>
           nbSolved u' = nbSolved u1 + of_nat (length (Wires g))"
proof -
  let ?vs = "map (setBigInt u1) (written (length (Wires g)) outs)"
  have "\<exists>s'. setAll u1 (zip (Wires g) ?vs) = Return s' \<and>
           (\<forall>i<length (Wires g). solved s' ! nat (Wires g ! i) \<and> values s' ! nat (Wires g ! i) = ?vs ! i) \<and>
           (\<forall>j. int j \<notin> set (Wires g) \<longrightarrow> solved s' ! j = solved u1 ! j \<and> values s' ! j = values u1 ! j) \<and>
           length (solved s') = length (solved u1) \<and> length (values s') = length (values u1) \<and>
           nbSolved s' = nbSolved u1 + of_nat (length (Wires g))"
    by (rule setAll_zip) (use assms(7,8) in simp_all)
  then obtain u' where r: "setAll u1 (zip (Wires g) ?vs) = Return u'"
    and inn: "\<forall>i<length (Wires g). solved u' ! nat (Wires g ! i) \<and> values u' ! nat (Wires g ! i) = ?vs ! i"
    and nb: "nbSolved u' = nbSolved u1 + of_nat (length (Wires g))"
    by blast
  have "solution_solveWithHint (Suc k) u vID g = Some (Return (err, u'))"
    using assms(1-6) r by (simp add: solution_callHint_def Let_def)
  then show ?thesis using inn nb by simp
qed

lemmas hint_ev = ex_store4_def ex_solution_def hint_double_def hint_fail_def hint_A_def hint_B_def hint_F_def
  hm_again_def hm_early_def hm_fail_def solver_solveWithHint_def solution_callHint_def recursiveSolve_def
  accumulateInto_def solver_set_def written_def CoeffIdZero_def CoeffIdOne_def CoeffIdTwo_def CoeffIdMinusOne_def
  Let_def

lemma solver_hint_again:
  fixes s :: "('a::field, 'z) store_scheme"
  assumes "mHintsFunctions s (HintID h) = Some f"
    and "solver_hintInputs s (HM_Inputs h) [] = Return ins"
    and "OutputRange_Start h \<noteq> OutputRange_End h"
    and "unat (OutputRange_Start h) < length (solved s)"
    and "solved s ! unat (OutputRange_Start h)"
  shows "solver_solveWithHint s h = Panic ''solving the same wire twice should never happen.''"
proof -
  define n where "n = unat (OutputRange_End h - OutputRange_Start h)"
  have "OutputRange_End h - OutputRange_Start h \<noteq> 0" using assms(3) by simp
  then have "n \<noteq> 0" unfolding n_def by (simp add: unat_eq_0)
  then obtain m where m: "n = Suc m" by (cases n) simp_all
  have up: "[0..<Suc m] = 0 # [1..<Suc m]" by (simp add: upt_rec)
  have first: "solver_set s (int (unat (OutputRange_Start h))) v
      = Panic ''solving the same wire twice should never happen.''" for v
    using assms(4,5) by (simp add: solver_set_def del: of_nat_unat)
  show ?thesis
    using assms(1,2) first
    unfolding solver_solveWithHint_def Let_def n_def [symmetric] m written_def up
    by (simp del: of_nat_unat upt_Suc)
qed

lemma hintInputTerms_append:
  "hintInputTerms rec u (xs @ ys) v =
     (case hintInputTerms rec u xs v of
        None \<Rightarrow> None
      | Some (Panic m) \<Rightarrow> Some (Panic m)
      | Some (Return (Some e, u', v')) \<Rightarrow> Some (Return (Some e, u', v'))
      | Some (Return (None, u', v')) \<Rightarrow> hintInputTerms rec u' ys v')"
  by (induction xs arbitrary: u v) (auto split: option.splits outcome.splits)

lemma hintInputs_append:
  "hintInputs rec u (xs @ ys) ins =
     (case hintInputs rec u xs ins of
        None \<Rightarrow> None
      | Some (Panic m) \<Rightarrow> Some (Panic m)
      | Some (Return (Some e, u', ins')) \<Rightarrow> Some (Return (Some e, u', ins'))
      | Some (Return (None, u', ins')) \<Rightarrow> hintInputs rec u' ys ins')"
  by (induction xs arbitrary: u ins) (auto split: option.splits outcome.splits)

text \<open>
  Claim C1, as stated, fails for bls12-381: \<open>solver.solveWithHint\<close> has no test of the
  output wires. With the first output wire solved it calls the function and panics in
  \<open>set\<close>.
\<close>

theorem hint_already_solved_counterexample:
  "solved ex_store4 ! unat (OutputRange_Start hm_again) \<and>
   solver_solveWithHint ex_store4 hm_again = Panic ''solving the same wire twice should never happen.''"
  by (simp add: hint_ev)

text \<open>
  Claim C1, amended. In bn254, when the wire passed to \<open>solveWithHint\<close> (the output
  wire being resolved) is already solved, the call returns no error and the state as
  it was, whatever the registry of hint functions holds: nothing is looked up or called
  (any fuel but zero). In bls12-381 there is no such test: a missing function is the
  error \<open>missing hint function\<close>; otherwise, with inputs that evaluate and at least one
  output, the call panics in \<open>set\<close> on the solved first output wire.
\<close>

theorem hint_already_solved:
  fixes u :: "'a::field solution" and s :: "('b::field, 'z) store_scheme"
  shows "(0 \<le> vID \<and> vID < int (length (solved u)) \<and> solved u ! nat vID \<longrightarrow>
            solution_solveWithHint (Suc k) u vID g = Some (Return (None, u))) \<and>
         (mHintsFunctions s (HintID h) = None \<longrightarrow>
            solver_solveWithHint s h = Return (Some (ErrorString ''missing hint function''), s)) \<and>
         (mHintsFunctions s (HintID h) = Some f \<and>
          solver_hintInputs s (HM_Inputs h) [] = Return ins \<and>
          OutputRange_Start h \<noteq> OutputRange_End h \<and>
          unat (OutputRange_Start h) < length (solved s) \<and>
          solved s ! unat (OutputRange_Start h) \<longrightarrow>
            solver_solveWithHint s h = Panic ''solving the same wire twice should never happen.'')"
  using solver_hint_again [of s h f ins]
  by (simp add: solver_solveWithHint_def)

theorem hint_already_solved_witness:
  "solution_solveWithHint 1 ex_solution 1 hint_A = Some (Return (None, ex_solution)) \<and>
   solution_solveWithHint 1 (ex_solution\<lparr>mHintsFunctions := Map.empty\<rparr>) 1 hint_A
     = Some (Return (None, ex_solution\<lparr>mHintsFunctions := Map.empty\<rparr>)) \<and>
   solver_solveWithHint (ex_store4\<lparr>mHintsFunctions := Map.empty\<rparr>) hm_again
     = Return (Some (ErrorString ''missing hint function''), ex_store4\<lparr>mHintsFunctions := Map.empty\<rparr>) \<and>
   solver_solveWithHint ex_store4 hm_again = Panic ''solving the same wire twice should never happen.''"
  using hint_already_solved [where vID = 1 and u = ex_solution and k = 0 and g = hint_A
      and s = "ex_store4\<lparr>mHintsFunctions := Map.empty\<rparr>" and h = hm_again]
    hint_already_solved [where vID = 1 and u = "ex_solution\<lparr>mHintsFunctions := Map.empty\<rparr>" and k = 0
      and g = hint_A and s = ex_store4 and h = hm_again and f = hint_double and ins = "[3]"]
  by (simp add: ex_store4_def ex_solution_def hm_again_def accumulateInto_def CoeffIdZero_def CoeffIdOne_def)

text \<open>
  Claim C2, as stated, fails for bls12-381: \<open>solver.solveWithHint\<close> accumulates every
  input term from the store as it is. An input term on an unsolved wire that no hint
  computes is read (as the zero the store holds) and the call returns.
\<close>

theorem hint_input_unsolved_counterexample:
  "\<not> IsConstant \<lparr>CID = 1, VID = 2, IsConstant = False\<rparr> \<and>
   \<not> solved ex_store4 ! VID \<lparr>CID = 1, VID = 2, IsConstant = False\<rparr> \<and>
   HM_Inputs hm_early = [[\<lparr>CID = 1, VID = 2, IsConstant = False\<rparr>]] \<and>
   solver_solveWithHint ex_store4 hm_early =
     Return (None, ex_store4\<lparr>values := [1, 3, 0, 0], solved := [True, True, False, True], nbSolved := 3\<rparr>)"
  by (simp add: hint_ev)

text \<open>
  Claim C2, amended. In bn254, let the loops of \<open>solveWithHint\<close> reach a non-constant
  input term \<open>t\<close> (after the input expressions \<open>lpre\<close> and the terms \<open>pre\<close>) in the state \<open>u\<close>
  with the wire of \<open>t\<close> unsolved. If that wire is not in \<open>mHints\<close>, the call panics. If it
  is the output of a hint \<open>g'\<close>, that hint is resolved first, by \<open>solveWithHint\<close>
  itself, and the term is accumulated in the state the resolution leaves; a panic, an
  error or the exhaustion of the fuel in the resolution is the outcome of the whole
  call. In bls12-381 there is neither test nor recursion: the term is accumulated.
\<close>

theorem hint_input_unsolved:
  fixes u :: "'a::field solution" and s :: "('b::field, 'z) store_scheme"
  assumes "\<not> IsConstant t"
    and "0 \<le> vID" and "vID < int (length (solved u0))" and "\<not> solved u0 ! nat vID"
    and "mHintsFunctions u0 (ID g) \<noteq> None"
    and "Inputs g = lpre @ (pre @ t # ts) # ls"
    and "hintInputs (solution_solveWithHint k) u0 lpre [] = Some (Return (None, u1, ins))"
    and "hintInputTerms (solution_solveWithHint k) u1 pre 0 = Some (Return (None, u, v))"
    and "VID t < length (solved u)" and "\<not> solved u ! VID t"
  shows "(mHints u (int (VID t)) = None \<longrightarrow>
            solution_solveWithHint (Suc k) u0 vID g =
              Some (Panic ''solver can't compute hint; one or more input wires are unsolved'')) \<and>
         (mHints u (int (VID t)) = Some g' \<longrightarrow>
            hintInputTerms (solution_solveWithHint k) u1 (pre @ t # ts) 0 =
              (case solution_solveWithHint k u (int (VID t)) g' of
                 None \<Rightarrow> None
               | Some (Panic m) \<Rightarrow> Some (Panic m)
               | Some (Return (Some e, u')) \<Rightarrow> Some (Return (Some e, u', v))
               | Some (Return (None, u')) \<Rightarrow>
                   (case accumulateInto u' t v of
                      Panic m \<Rightarrow> Some (Panic m)
                    | Return v' \<Rightarrow> hintInputTerms (solution_solveWithHint k) u' ts v')) \<and>
            (solution_solveWithHint k u (int (VID t)) g' = None \<longrightarrow>
               solution_solveWithHint (Suc k) u0 vID g = None) \<and>
            (\<forall>m. solution_solveWithHint k u (int (VID t)) g' = Some (Panic m) \<longrightarrow>
               solution_solveWithHint (Suc k) u0 vID g = Some (Panic m)) \<and>
            (\<forall>e u'. solution_solveWithHint k u (int (VID t)) g' = Some (Return (Some e, u')) \<longrightarrow>
               solution_solveWithHint (Suc k) u0 vID g = Some (Return (Some e, u')))) \<and>
         solver_hintInputTerms s (t # ts) w =
           (case accumulateInto s t w of
              Panic m \<Rightarrow> Panic m
            | Return w' \<Rightarrow> solver_hintInputTerms s ts w')"
proof -
  let ?R = "solution_solveWithHint k"
  let ?msg = "''solver can't compute hint; one or more input wires are unsolved''"
  have here: "hintInputTerms ?R u1 (pre @ t # ts) 0 = hintInputTerms ?R u (t # ts) v"
    by (simp add: hintInputTerms_append assms(8))
  have inputs: "hintInputs ?R u0 (Inputs g) [] =
      (case hintInputTerms ?R u (t # ts) v of
         None \<Rightarrow> None
       | Some (Panic m) \<Rightarrow> Some (Panic m)
       | Some (Return (Some e, u', v')) \<Rightarrow> Some (Return (Some e, u', ins))
       | Some (Return (None, u', v')) \<Rightarrow> hintInputs ?R u' ls (ins @ [toBigInt u' v']))"
    by (simp add: assms(6,7) hintInputs_append here)
  obtain f where f: "mHintsFunctions u0 (ID g) = Some f"
    using assms(5) by blast
  have top: "solution_solveWithHint (Suc k) u0 vID g =
      (case hintInputs ?R u0 (Inputs g) [] of
         None \<Rightarrow> None
       | Some (Panic m) \<Rightarrow> Some (Panic m)
       | Some (Return (Some e, u', ins')) \<Rightarrow> Some (Return (Some e, u'))
       | Some (Return (None, u', ins')) \<Rightarrow> Some (solution_callHint u' g f ins'))"
    using assms(2-4) f by (simp split: option.splits outcome.splits)
  have none: "hintInputTerms ?R u (t # ts) v = Some (Panic ?msg)" if "mHints u (int (VID t)) = None"
    using that assms(1,9,10) by (simp add: recursiveSolve_def)
  have some: "hintInputTerms ?R u (t # ts) v =
              (case ?R u (int (VID t)) g' of
                 None \<Rightarrow> None
               | Some (Panic m) \<Rightarrow> Some (Panic m)
               | Some (Return (Some e, u')) \<Rightarrow> Some (Return (Some e, u', v))
               | Some (Return (None, u')) \<Rightarrow>
                   (case accumulateInto u' t v of
                      Panic m \<Rightarrow> Some (Panic m)
                    | Return v' \<Rightarrow> hintInputTerms ?R u' ts v'))" if "mHints u (int (VID t)) = Some g'"
    using that assms(1,9,10) by (simp add: recursiveSolve_def)
  have p1: "mHints u (int (VID t)) = None \<longrightarrow> solution_solveWithHint (Suc k) u0 vID g = Some (Panic ?msg)"
    using none by (simp only: top inputs) simp
  have p2: "solution_solveWithHint (Suc k) u0 vID g = None"
    if "mHints u (int (VID t)) = Some g'" "?R u (int (VID t)) g' = None"
    using some [OF that(1)] that(2) by (simp only: top inputs) simp
  have p3: "solution_solveWithHint (Suc k) u0 vID g = Some (Panic m)"
    if "mHints u (int (VID t)) = Some g'" "?R u (int (VID t)) g' = Some (Panic m)" for m
    using some [OF that(1)] that(2) by (simp only: top inputs) simp
  have p4: "solution_solveWithHint (Suc k) u0 vID g = Some (Return (Some e, u'))"
    if "mHints u (int (VID t)) = Some g'" "?R u (int (VID t)) g' = Some (Return (Some e, u'))" for e u'
    using some [OF that(1)] that(2) by (simp only: top inputs) simp
  have p5: "solver_hintInputTerms s (t # ts) w =
           (case accumulateInto s t w of
              Panic m \<Rightarrow> Panic m
            | Return w' \<Rightarrow> solver_hintInputTerms s ts w')"
    using assms(1) by simp
  from p1 p2 p3 p4 p5 some here show ?thesis by simp
qed

theorem hint_input_unsolved_witness:
  "solution_solveWithHint 1 (ex_solution\<lparr>mHints := Map.empty\<rparr>) 3 hint_A =
     Some (Panic ''solver can't compute hint; one or more input wires are unsolved'') \<and>
   hintInputTerms (solution_solveWithHint 1) ex_solution [\<lparr>CID = 1, VID = 2, IsConstant = False\<rparr>] 0 =
     Some (Return (None, ex_solution\<lparr>values := [1, 3, 6, 0], solved := [True, True, True, False],
                                      nbSolved := 3\<rparr>, 6)) \<and>
   solution_solveWithHint 1 ex_solution 3 hint_A = None"
  using hint_input_unsolved [where t = "\<lparr>CID = 1, VID = 2, IsConstant = False\<rparr>" and vID = 3
      and ?u0.0 = "ex_solution\<lparr>mHints := Map.empty\<rparr>" and ?u1.0 = "ex_solution\<lparr>mHints := Map.empty\<rparr>"
      and u = "ex_solution\<lparr>mHints := Map.empty\<rparr>" and g = hint_A and lpre = "[]" and pre = "[]"
      and ts = "[]" and ls = "[]" and k = 0 and ins = "[]" and v = 0]
    hint_input_unsolved [where t = "\<lparr>CID = 1, VID = 2, IsConstant = False\<rparr>" and vID = 3
      and ?u0.0 = ex_solution and ?u1.0 = ex_solution and u = ex_solution and g = hint_A and g' = hint_B
      and lpre = "[]" and pre = "[]" and ts = "[]" and ls = "[]" and k = 1 and ins = "[]" and v = 0]
    hint_input_unsolved [where t = "\<lparr>CID = 1, VID = 2, IsConstant = False\<rparr>" and vID = 3
      and ?u0.0 = ex_solution and ?u1.0 = ex_solution and u = ex_solution and g = hint_A and g' = hint_B
      and lpre = "[]" and pre = "[]" and ts = "[]" and ls = "[]" and k = 0 and ins = "[]" and v = 0]
  by (simp add: hint_ev)

text \<open>
  Claim C10. When the hint function returns an error, both resolvers still convert
  every entry of the output buffer and set it on its output wire (the wires being
  distinct, within the store and unsolved), and then return the error: the output
  wires are solved in the state that comes with the error.
\<close>

theorem hint_error_sets_outputs:
  fixes s :: "('a::field, 'z) store_scheme" and u :: "'b::field solution"
  shows "(mHintsFunctions s (HintID h) = Some f \<and>
          solver_hintInputs s (HM_Inputs h) [] = Return ins \<and>
          n = unat (OutputRange_End h - OutputRange_Start h) \<and>
          f (modulus s) ins (replicate n 0) = (outs, Some e) \<and>
          (\<forall>i<n. unat (OutputRange_Start h) + i < length (solved s) \<and>
                 unat (OutputRange_Start h) + i < length (values s) \<and>
                 \<not> solved s ! (unat (OutputRange_Start h) + i)) \<longrightarrow>
          (\<exists>s'. solver_solveWithHint s h = Return (Some e, s') \<and>
             (\<forall>i<n. solved s' ! (unat (OutputRange_Start h) + i) \<and>
                    values s' ! (unat (OutputRange_Start h) + i) = setBigInt s (written n outs ! i)) \<and>
             nbSolved s' = nbSolved s + of_nat n)) \<and>
         (0 \<le> vID \<and> vID < int (length (solved u)) \<and> \<not> solved u ! nat vID \<and>
          mHintsFunctions u (ID g) = Some f' \<and>
          hintInputs (solution_solveWithHint k) u (Inputs g) [] = Some (Return (None, u1, ins')) \<and>
          f' (modulus u1) ins' (replicate (length (Wires g)) 0) = (outs', Some e') \<and>
          distinct (Wires g) \<and>
          (\<forall>w\<in>set (Wires g). 0 \<le> w \<and> w < int (length (solved u1)) \<and>
                 w < int (length (values u1)) \<and> \<not> solved u1 ! nat w) \<longrightarrow>
          (\<exists>u'. solution_solveWithHint (Suc k) u vID g = Some (Return (Some e', u')) \<and>
             (\<forall>i<length (Wires g). solved u' ! nat (Wires g ! i) \<and>
                  values u' ! nat (Wires g ! i) = setBigInt u1 (written (length (Wires g)) outs' ! i)) \<and>
             nbSolved u' = nbSolved u1 + of_nat (length (Wires g))))"
proof (intro conjI impI)
  assume "mHintsFunctions s (HintID h) = Some f \<and>
          solver_hintInputs s (HM_Inputs h) [] = Return ins \<and>
          n = unat (OutputRange_End h - OutputRange_Start h) \<and>
          f (modulus s) ins (replicate n 0) = (outs, Some e) \<and>
          (\<forall>i<n. unat (OutputRange_Start h) + i < length (solved s) \<and>
                 unat (OutputRange_Start h) + i < length (values s) \<and>
                 \<not> solved s ! (unat (OutputRange_Start h) + i))"
  then have a: "mHintsFunctions s (HintID h) = Some f"
    and b: "solver_hintInputs s (HM_Inputs h) [] = Return ins"
    and c: "n = unat (OutputRange_End h - OutputRange_Start h)"
    and d: "f (modulus s) ins (replicate n 0) = (outs, Some e)"
    and e: "\<forall>i<n. unat (OutputRange_Start h) + i < length (solved s) \<and>
                 unat (OutputRange_Start h) + i < length (values s) \<and>
                 \<not> solved s ! (unat (OutputRange_Start h) + i)"
    by blast+
  show "\<exists>s'. solver_solveWithHint s h = Return (Some e, s') \<and>
             (\<forall>i<n. solved s' ! (unat (OutputRange_Start h) + i) \<and>
                    values s' ! (unat (OutputRange_Start h) + i) = setBigInt s (written n outs ! i)) \<and>
             nbSolved s' = nbSolved s + of_nat n"
    by (rule solver_hint_error [OF a b c d e])
next
  assume "0 \<le> vID \<and> vID < int (length (solved u)) \<and> \<not> solved u ! nat vID \<and>
          mHintsFunctions u (ID g) = Some f' \<and>
          hintInputs (solution_solveWithHint k) u (Inputs g) [] = Some (Return (None, u1, ins')) \<and>
          f' (modulus u1) ins' (replicate (length (Wires g)) 0) = (outs', Some e') \<and>
          distinct (Wires g) \<and>
          (\<forall>w\<in>set (Wires g). 0 \<le> w \<and> w < int (length (solved u1)) \<and>
                 w < int (length (values u1)) \<and> \<not> solved u1 ! nat w)"
  then have a: "0 \<le> vID" and b: "vID < int (length (solved u))" and c: "\<not> solved u ! nat vID"
    and d: "mHintsFunctions u (ID g) = Some f'"
    and e: "hintInputs (solution_solveWithHint k) u (Inputs g) [] = Some (Return (None, u1, ins'))"
    and f: "f' (modulus u1) ins' (replicate (length (Wires g)) 0) = (outs', Some e')"
    and g: "distinct (Wires g)"
    and h: "\<forall>w\<in>set (Wires g). 0 \<le> w \<and> w < int (length (solved u1)) \<and>
                 w < int (length (values u1)) \<and> \<not> solved u1 ! nat w"
    by blast+
  show "\<exists>u'. solution_solveWithHint (Suc k) u vID g = Some (Return (Some e', u')) \<and>
             (\<forall>i<length (Wires g). solved u' ! nat (Wires g ! i) \<and>
                  values u' ! nat (Wires g ! i) = setBigInt u1 (written (length (Wires g)) outs' ! i)) \<and>
             nbSolved u' = nbSolved u1 + of_nat (length (Wires g))"
    by (rule solution_hint_error [OF a b c d e f g h])
qed

theorem hint_error_sets_outputs_witness:
  "solver_solveWithHint ex_store4 hm_fail =
     Return (Some (ErrorString ''boom''),
             ex_store4\<lparr>values := [1, 3, 42, 0], solved := [True, True, True, False], nbSolved := 3\<rparr>) \<and>
   solution_solveWithHint 1 ex_solution 2 hint_F =
     Some (Return (Some (ErrorString ''boom''),
             ex_solution\<lparr>values := [1, 3, 42, 0], solved := [True, True, True, False], nbSolved := 3\<rparr>))"
  using hint_error_sets_outputs [where s = ex_store4 and h = hm_fail and f = hint_fail and ins = "[3]"
      and n = 1 and outs = "[42]" and e = "ErrorString ''boom''"
      and u = ex_solution and vID = 2 and g = hint_F and f' = hint_fail and k = 0
      and ?u1.0 = ex_solution and ins' = "[3]" and outs' = "[42]" and e' = "ErrorString ''boom''"]
  by (simp add: hint_ev)

end
